theory Spec2Isabelle
  imports Main "HOL-Library.AList"
begin

section \<open>Strings and dictionaries of the Python source\<close>

text \<open>
  The module \<^verbatim>\<open>tools/bisection-search/common.py\<close> builds its paths, its log lines and
  its command lines with \<^verbatim>\<open>str.format\<close> and \<^verbatim>\<open>str.join\<close>. Strings are \<^typ>\<open>string\<close>;
  the two characters that cannot be typed inside a literal get a name.
\<close>

definition nl :: string where
  "nl = [CHR 0x0A]"

definition dq :: string where
  "dq = [CHR 0x22]"

text \<open>\<^verbatim>\<open>sep.join(xs)\<close>.\<close>

fun join :: "string \<Rightarrow> string list \<Rightarrow> string" where
  "join sep [] = []"
| "join sep [x] = x"
| "join sep (x # y # ys) = x @ sep @ join sep (y # ys)"

text \<open>\<^verbatim>\<open>str(n)\<close> for an integer, as \<^verbatim>\<open>'{0}'.format(n)\<close> prints it: decimal, with a minus sign.\<close>

definition digit :: "nat \<Rightarrow> char" where
  "digit d = char_of (48 + d)"

function str_nat :: "nat \<Rightarrow> string" where
  "str_nat n = (if n < 10 then [digit n] else str_nat (n div 10) @ [digit (n mod 10)])"
  by pat_completeness auto
termination
  by (relation "measure id") auto

declare str_nat.simps [simp del]

definition str_int :: "int \<Rightarrow> string" where
  "str_int i = (if i < 0 then ''-'' @ str_nat (nat (- i)) else str_nat (nat i))"

text \<open>
  A dict of strings is an association list, in the order \<^verbatim>\<open>items()\<close> gives; every key
  occurs once. \<^verbatim>\<open>d[k] = v\<close> replaces the value of a key that is there and adds a new
  key at the end; \<^verbatim>\<open>d.update(e)\<close> stores the items of \<^verbatim>\<open>e\<close> one after the other.
\<close>

type_synonym pydict = "(string \<times> string) list"

definition dict_get :: "pydict \<Rightarrow> string \<Rightarrow> string option" where
  "dict_get d k = map_of d k"

definition dict_set :: "pydict \<Rightarrow> string \<Rightarrow> string \<Rightarrow> pydict" where
  "dict_set d k v = AList.update k v d"

definition dict_update :: "pydict \<Rightarrow> pydict \<Rightarrow> pydict" where
  "dict_update d e = fold (\<lambda>(k, v) acc. dict_set acc k v) e d"

definition wf_dict :: "pydict \<Rightarrow> bool" where
  "wf_dict d = distinct (map fst d)"

section \<open>What runs outside the interpreter\<close>

text \<open>The exceptions that the calls of the module raise.\<close>

datatype error =
    FatalError string
  | FileExistsError
  | FileNotFoundError
  | IsADirectoryError
  | NotADirectoryError
  | PermissionError
  | KeyError string
  | ValueError string
  | UnicodeDecodeError
  | CalledProcessError int

text \<open>
  Child processes see and change the host's file system and, through \<^verbatim>\<open>adb\<close>, the
  attached device. A path is the string the source formats; a node is a regular file
  with its content, or a directory. The device is not looked into: its state has an
  arbitrary type. The machine also keeps, in the order they were started, the children
  that the command runner has started: each is running, or has ended with a status,
  which is minus the number of the signal when a signal ended it.
\<close>

datatype node = File string | Dir

type_synonym filesystem = "(string \<times> node) list"

datatype status = Running | Ended (returncode: int)

record 'd machine =
  host_fs :: filesystem
  device_st :: 'd
  children :: "status list"

text \<open>
  \<^verbatim>\<open>Popen(cmd, stderr=STDOUT, stdout=PIPE, env=env, universal_newlines=True)\<close> followed
  by \<^verbatim>\<open>communicate(timeout=timeout)\<close>. \<^verbatim>\<open>Popen\<close> raises when the program cannot be
  started. Otherwise the child either ends within the timeout, with its exit status,
  or is still running when the timeout expires and \<^verbatim>\<open>TimeoutExpired\<close> is raised; the
  \<^verbatim>\<open>communicate()\<close> that follows the kill is taken to return, that is, no other process
  keeps the pipe of the child open. In
  both cases the merged output that \<^verbatim>\<open>communicate\<close> has collected when it returns is
  text, or \<^verbatim>\<open>communicate\<close> raises because the bytes cannot be decoded. What the child
  does is not code of the module: it is a parameter, a function of the argument
  vector, the environment, the timeout and the machine the child starts on. Of the
  machine it gives back, the file system and the device count; the list of children is
  kept by the runner.
\<close>

datatype 'd outcome =
    NotStarted error
  | Exited "error + string" int "'d machine"
  | TimeoutExpired "error + string" "'d machine"

type_synonym 'd popen = "string list \<Rightarrow> pydict \<Rightarrow> nat \<Rightarrow> 'd machine \<Rightarrow> 'd outcome"

text \<open>
  \<^verbatim>\<open>proc.kill()\<close> sends signal 9, which a process cannot catch: a running child ends
  with the status \<open>- 9\<close>, a child that has ended keeps its status.
\<close>

definition SIGKILL :: int where
  "SIGKILL = 9"

definition kill :: "status \<Rightarrow> status" where
  "kill proc = (case proc of Running \<Rightarrow> Ended (- SIGKILL) | Ended rc \<Rightarrow> Ended rc)"

section \<open>The command runner\<close>

text \<open>\<^verbatim>\<open>_CommandListToCommandString\<close>: \<^verbatim>\<open>' '.join(['"{0}"'.format(segment) for segment in cmd])\<close>.\<close>

definition CommandListToCommandString :: "string list \<Rightarrow> string" where
  "CommandListToCommandString cmd = join '' '' (map (\<lambda>segment. dq @ segment @ dq) cmd)"

text \<open>
  \<^verbatim>\<open>_RunCommandForOutputAndLog(cmd, env, logfile, timeout=60)\<close>. The log file handle is
  the text written through it; the function returns the pair of the source or raises,
  and leaves the handle and the machine.

  Lines 94 to 98, reached when \<^verbatim>\<open>communicate\<close> has returned the output: the block is
  written and the pair returned. When \<^verbatim>\<open>communicate\<close> raises instead, the exception
  leaves the function before line 94. Either way the child has ended by then.
\<close>

definition DEFAULT_TIMEOUT :: nat where
  "DEFAULT_TIMEOUT = 60"

definition communicated ::
  "string list \<Rightarrow> string \<Rightarrow> bool \<Rightarrow> error + string \<Rightarrow> status \<Rightarrow> 'd machine
     \<Rightarrow> (error + string \<times> int) \<times> string \<times> 'd machine" where
  "communicated cmd logfile timeouted collected proc m =
     (let m = m\<lparr>children := children m @ [proc]\<rparr> in
      case collected of
        Inl e \<Rightarrow> (Inl e, logfile, m)
      | Inr output \<Rightarrow>
          let logfile = logfile @ ''Command:'' @ nl @ CommandListToCommandString cmd @ nl
                          @ output @ nl @ ''Return code: ''
                          @ (if timeouted then ''TIMEOUT'' else str_int (returncode proc)) @ nl;
              ret_code = (if timeouted then 1 else returncode proc)
          in (Inr (output, ret_code), logfile, m))"

text \<open>
  Lines 85 to 93: the child is started; \<^verbatim>\<open>communicate(timeout=timeout)\<close> returns, or
  \<^verbatim>\<open>TimeoutExpired\<close> is caught, the running child is killed and \<^verbatim>\<open>communicate()\<close>
  collects what it had written.
\<close>

definition RunCommandForOutputAndLog ::
  "'d popen \<Rightarrow> string list \<Rightarrow> pydict \<Rightarrow> string \<Rightarrow> nat \<Rightarrow> 'd machine
     \<Rightarrow> (error + string \<times> int) \<times> string \<times> 'd machine" where
  "RunCommandForOutputAndLog popen cmd env logfile timeout m =
     (case popen cmd env timeout m of
        NotStarted e \<Rightarrow> (Inl e, logfile, m)
      | Exited collected rc m' \<Rightarrow>
          communicated cmd logfile False collected (Ended rc) (m'\<lparr>children := children m\<rparr>)
      | TimeoutExpired collected m' \<Rightarrow>
          communicated cmd logfile True collected (kill Running) (m'\<lparr>children := children m\<rparr>))"

section \<open>The interpreter's side: the file system calls, temporary names\<close>

text \<open>
  The world of a run: the machine, \<^verbatim>\<open>os.environ\<close>, the names that \<^verbatim>\<open>tempfile\<close>
  will draw, in the order it draws them (the list stands for the bounded number of
  attempts \<^verbatim>\<open>tempfile\<close> makes), the directory \<^verbatim>\<open>tempfile.gettempdir()\<close> gives, and the
  dict objects that callers pass by reference: a reference is an index into the heap,
  and a reference that is held always points to an object. An action returns a value
  or raises, and leaves a state.
\<close>

record 'd world =
  mach :: "'d machine"
  environ :: pydict
  candidates :: "string list"
  tempdir :: string
  heap :: "pydict list"

type_synonym ('a, 'd) action = "'d world \<Rightarrow> (error + 'a) \<times> 'd world"

definition ok :: "'a \<Rightarrow> 's \<Rightarrow> (error + 'a) \<times> 's" where
  "ok a w = (Inr a, w)"

definition then_do ::
  "('s \<Rightarrow> (error + 'a) \<times> 's) \<Rightarrow> ('a \<Rightarrow> 's \<Rightarrow> (error + 'b) \<times> 's) \<Rightarrow> 's \<Rightarrow> (error + 'b) \<times> 's" where
  "then_do f g w = (case f w of (Inl e, w') \<Rightarrow> (Inl e, w') | (Inr a, w') \<Rightarrow> g a w')"

definition the_fs :: "'d world \<Rightarrow> filesystem" where
  "the_fs w = host_fs (mach w)"

definition set_fs :: "filesystem \<Rightarrow> 'd world \<Rightarrow> 'd world" where
  "set_fs f w = w\<lparr>mach := (mach w)\<lparr>host_fs := f\<rparr>\<rparr>"

text \<open>
  Paths are compared as the strings they are written as: the model does not resolve
  \<^verbatim>\<open>.\<close>, \<^verbatim>\<open>..\<close>, repeated slashes or links. Permissions and the space left on the
  device are not modelled: a directory that is there can be written to.
  \<^verbatim>\<open>os.path.isfile\<close>, \<^verbatim>\<open>os.path.isdir\<close>:
\<close>

definition isfile :: "filesystem \<Rightarrow> string \<Rightarrow> bool" where
  "isfile f p = (case map_of f p of Some (File c) \<Rightarrow> True | _ \<Rightarrow> False)"

definition isdir :: "filesystem \<Rightarrow> string \<Rightarrow> bool" where
  "isdir f p = (case map_of f p of Some Dir \<Rightarrow> True | _ \<Rightarrow> False)"

text \<open>
  \<^verbatim>\<open>os.path.join(a, b)\<close> and \<^verbatim>\<open>os.path.basename(p)\<close> of \<^verbatim>\<open>posixpath\<close>, and the text
  before the last slash of a path, which names the directory that holds it.
\<close>

definition path_join :: "string \<Rightarrow> string \<Rightarrow> string" where
  "path_join a b =
     (if b \<noteq> [] \<and> hd b = CHR ''/'' then b
      else if a = [] \<or> last a = CHR ''/'' then a @ b
      else a @ ''/'' @ b)"

definition basename :: "string \<Rightarrow> string" where
  "basename p = rev (takeWhile (\<lambda>c. c \<noteq> CHR ''/'') (rev p))"

definition parent :: "string \<Rightarrow> string" where
  "parent p = rev (tl (dropWhile (\<lambda>c. c \<noteq> CHR ''/'') (rev p)))"

text \<open>
  What the system answers when a name is to be made in a directory that is not there.
  A path without a slash lies in the current directory and a path directly below the
  root in the root: these two are taken to exist.
\<close>

definition parent_error :: "filesystem \<Rightarrow> string \<Rightarrow> error option" where
  "parent_error f p =
     (if CHR ''/'' \<notin> set p \<or> parent p = [] then None
      else case map_of f (parent p) of
             None \<Rightarrow> Some FileNotFoundError
           | Some (File c) \<Rightarrow> Some NotADirectoryError
           | Some Dir \<Rightarrow> None)"

text \<open>
  \<^verbatim>\<open>os.mkdir(p)\<close> raises when the directory that is to hold the path is missing or is
  a file, and when the path exists.
\<close>

definition os_mkdir :: "string \<Rightarrow> (unit, 'd) action" where
  "os_mkdir p w =
     (if p = [] then (Inl FileNotFoundError, w)
      else case parent_error (the_fs w) p of
             Some e \<Rightarrow> (Inl e, w)
           | None \<Rightarrow>
               if map_of (the_fs w) p \<noteq> None then (Inl FileExistsError, w)
               else (Inr (), set_fs (AList.update p Dir (the_fs w)) w))"

text \<open>
  \<^verbatim>\<open>open(p, 'w')\<close> and \<^verbatim>\<open>open(p, 'w+')\<close> create the file or cut it to length zero. They
  raise on the empty path, when the directory that is to hold the file is missing or is
  a file, on a path that ends with a slash, and on a directory. The value is the name
  of the file object, \<^verbatim>\<open>f.name\<close>.
\<close>

definition open_error :: "filesystem \<Rightarrow> string \<Rightarrow> error option" where
  "open_error f p =
     (if p = [] then Some FileNotFoundError
      else let q = (if last p = CHR ''/'' then butlast p else p)
           in case parent_error f q of
                Some e \<Rightarrow> Some e
              | None \<Rightarrow>
                  if last p = CHR ''/'' \<or> isdir f q then Some IsADirectoryError else None)"

definition open_w :: "string \<Rightarrow> (string, 'd) action" where
  "open_w p w =
     (case open_error (the_fs w) p of
        Some e \<Rightarrow> (Inl e, w)
      | None \<Rightarrow> (Inr p, set_fs (AList.update p (File []) (the_fs w)) w))"

text \<open>
  \<^verbatim>\<open>os.listdir(d)\<close>: the names directly inside a directory, that is the paths
  \<^verbatim>\<open>d/n\<close> where \<^verbatim>\<open>n\<close> is not empty and has no slash.
\<close>

definition child_name :: "string \<Rightarrow> string \<Rightarrow> string option" where
  "child_name d p =
     (let pre = d @ ''/''; n = drop (length pre) p
      in if take (length pre) p = pre \<and> n \<noteq> [] \<and> CHR ''/'' \<notin> set n then Some n else None)"

definition os_listdir :: "string \<Rightarrow> (string list, 'd) action" where
  "os_listdir d w =
     (case map_of (the_fs w) d of
        None \<Rightarrow> (Inl FileNotFoundError, w)
      | Some (File c) \<Rightarrow> (Inl NotADirectoryError, w)
      | Some Dir \<Rightarrow> (Inr (List.map_filter (child_name d) (map fst (the_fs w))), w))"

text \<open>\<^verbatim>\<open>os.unlink(p)\<close>.\<close>

definition os_unlink :: "string \<Rightarrow> (unit, 'd) action" where
  "os_unlink p w =
     (case map_of (the_fs w) p of
        None \<Rightarrow> (Inl FileNotFoundError, w)
      | Some Dir \<Rightarrow> (Inl IsADirectoryError, w)
      | Some (File c) \<Rightarrow> (Inr (), set_fs (AList.delete p (the_fs w)) w))"

text \<open>
  \<^verbatim>\<open>tempfile\<close> tries the candidate names in turn and takes the first whose path does
  not exist; it raises \<^verbatim>\<open>FileExistsError\<close> when none is left. \<^verbatim>\<open>mkdtemp\<close> makes a
  directory; the directory it is handed, \<^verbatim>\<open>/tmp/\<close> in both constructors, is taken to
  exist. \<^verbatim>\<open>NamedTemporaryFile\<close> opens a new empty file with the prefix \<^verbatim>\<open>tmp\<close>,
  and raises as \<^verbatim>\<open>open\<close> does when the file cannot be made.
\<close>

fun first_free :: "filesystem \<Rightarrow> string \<Rightarrow> string \<Rightarrow> string list \<Rightarrow> (string \<times> string list) option" where
  "first_free f dir pre [] = None"
| "first_free f dir pre (n # ns) =
     (if map_of f (path_join dir (pre @ n)) = None then Some (path_join dir (pre @ n), ns)
      else first_free f dir pre ns)"

definition mkdtemp :: "string \<Rightarrow> string \<Rightarrow> (string, 'd) action" where
  "mkdtemp dir prefix w =
     (case first_free (the_fs w) dir prefix (candidates w) of
        None \<Rightarrow> (Inl FileExistsError, w\<lparr>candidates := []\<rparr>)
      | Some (p, rest) \<Rightarrow>
          (Inr p, set_fs (AList.update p Dir (the_fs w)) (w\<lparr>candidates := rest\<rparr>)))"


section \<open>Module level functions\<close>

definition DEVICE_TMP_PATH :: string where
  "DEVICE_TMP_PATH = ''/data/local/tmp''"

definition DALVIK_CACHE_ARCHS :: "string list" where
  "DALVIK_CACHE_ARCHS = [''arm'', ''arm64'', ''x86'', ''x86_64'']"

text \<open>\<^verbatim>\<open>GetEnvVariableOrError(variable_name)\<close>.\<close>

definition GetEnvVariableOrError :: "string \<Rightarrow> (string, 'd) action" where
  "GetEnvVariableOrError variable_name w =
     (case dict_get (environ w) variable_name of
        None \<Rightarrow> (Inl (FatalError (variable_name @ '' environmental variable not set.'')), w)
      | Some top_val \<Rightarrow> (Inr top_val, w))"

text \<open>\<^verbatim>\<open>_DexArchCachePaths(android_data_path)\<close>.\<close>

definition DexArchCachePaths :: "string \<Rightarrow> string list" where
  "DexArchCachePaths android_data_path =
     map (\<lambda>arch. android_data_path @ ''/dalvik-cache/'' @ arch) DALVIK_CACHE_ARCHS"

section \<open>HostTestEnv\<close>

text \<open>
  The fields \<^verbatim>\<open>_env_path\<close>, \<^verbatim>\<open>_logfile\<close> and \<^verbatim>\<open>_shell_env\<close>. The log file is a node of
  the file system, made when it is opened; what the object writes is kept with the
  handle, since the model does not follow when buffered text reaches the disk.
\<close>

record HostTestEnv =
  host_env_path :: string
  host_logfile :: string
  host_shell_env :: pydict

text \<open>The loop \<^verbatim>\<open>for arch_cache_path in ...: os.mkdir(arch_cache_path)\<close>.\<close>

fun mkdir_each :: "string list \<Rightarrow> (unit, 'd) action" where
  "mkdir_each [] = ok ()"
| "mkdir_each (p # ps) = then_do (os_mkdir p) (\<lambda>_. mkdir_each ps)"

text \<open>\<^verbatim>\<open>HostTestEnv.__init__(self, x64)\<close>, line by line.\<close>

definition HostTestEnv_init :: "bool \<Rightarrow> (HostTestEnv, 'd) action" where
  "HostTestEnv_init x64 =
     then_do (mkdtemp ''/tmp/'' ''bisection_search_'') (\<lambda>env_path.
     then_do (open_w (env_path @ ''/log'')) (\<lambda>_.
     then_do (os_mkdir (env_path @ ''/dalvik-cache'')) (\<lambda>_.
     then_do (mkdir_each (DexArchCachePaths env_path)) (\<lambda>_.
     let lib = (if x64 then ''lib64'' else ''lib'') in
     then_do (GetEnvVariableOrError ''ANDROID_HOST_OUT'') (\<lambda>android_root.
     let library_path = android_root @ ''/'' @ lib;
         path = android_root @ ''/bin'' in
     (\<lambda>w.
        let shell_env = environ w;
            shell_env = dict_set shell_env ''ANDROID_DATA'' env_path;
            shell_env = dict_set shell_env ''ANDROID_ROOT'' android_root;
            shell_env = dict_set shell_env ''LD_LIBRARY_PATH'' library_path;
            shell_env = dict_set shell_env ''DYLD_LIBRARY_PATH'' library_path
        in case dict_get shell_env ''PATH'' of
             None \<Rightarrow> (Inl (KeyError ''PATH''), w)
           | Some old_path \<Rightarrow>
               let shell_env = dict_set shell_env ''PATH'' (path @ '':'' @ old_path);
                   shell_env = dict_set shell_env ''LD_USE_LOAD_BIAS'' ''1''
               in (Inr \<lparr>host_env_path = env_path, host_logfile = [],
                         host_shell_env = shell_env\<rparr>, w)))))))"



text \<open>
  \<^verbatim>\<open>HostTestEnv._EmptyDexCache(self)\<close>: the inner loop over the names of one directory,
  the outer loop over the architecture directories.
\<close>

fun unlink_files :: "string \<Rightarrow> string list \<Rightarrow> (unit, 'd) action" where
  "unlink_files arch_cache_path [] = ok ()"
| "unlink_files arch_cache_path (n # ns) =
     (\<lambda>w. let file_path = arch_cache_path @ ''/'' @ n
          in if isfile (the_fs w) file_path
             then then_do (os_unlink file_path) (\<lambda>_. unlink_files arch_cache_path ns) w
             else unlink_files arch_cache_path ns w)"

fun empty_each :: "string list \<Rightarrow> (unit, 'd) action" where
  "empty_each [] = ok ()"
| "empty_each (arch_cache_path # ps) =
     then_do (os_listdir arch_cache_path) (\<lambda>names.
     then_do (unlink_files arch_cache_path names) (\<lambda>_. empty_each ps))"

definition HostEmptyDexCache :: "HostTestEnv \<Rightarrow> (unit, 'd) action" where
  "HostEmptyDexCache self = empty_each (DexArchCachePaths (host_env_path self))"

text \<open>
  \<^verbatim>\<open>HostTestEnv.RunCommand(self, cmd, env_updates=None)\<close>. \<^verbatim>\<open>not env_updates\<close> holds
  for \<^verbatim>\<open>None\<close> and for the empty dict. The method returns what the runner returns, or
  raises with it, and leaves the object with its log.
\<close>

definition HostRunCommand ::
  "'d popen \<Rightarrow> HostTestEnv \<Rightarrow> string list \<Rightarrow> pydict option \<Rightarrow> 'd world
     \<Rightarrow> (error + string \<times> int) \<times> HostTestEnv \<times> 'd world" where
  "HostRunCommand popen self cmd env_updates w =
     (let env_updates = (case env_updates of None \<Rightarrow> [] | Some d \<Rightarrow> if d = [] then [] else d) in
      case HostEmptyDexCache self w of
        (Inl e, w) \<Rightarrow> (Inl e, self, w)
      | (Inr _, w) \<Rightarrow>
          let env = host_shell_env self;
              env = dict_update env env_updates;
              (res, logfile', m') =
                 RunCommandForOutputAndLog popen cmd env (host_logfile self) DEFAULT_TIMEOUT (mach w)
          in (res, self\<lparr>host_logfile := logfile'\<rparr>, w\<lparr>mach := m'\<rparr>))"

section \<open>shlex.split\<close>

text \<open>
  \<^verbatim>\<open>shlex.split(s)\<close> of the standard library, in its default mode (POSIX rules, split
  at white space only, no comments): the state machine of \<^verbatim>\<open>shlex.read_token\<close>. Outside
  a word white space is skipped; a word ends at white space or at the end; a quote
  opens a quoted stretch that the same quote closes and that adds its characters to the
  word; a backslash takes the next character as it is, and inside double quotes it stays
  in the word unless that character is a backslash or a double quote. The end of the
  text inside quotes or after a backslash raises \<^verbatim>\<open>ValueError\<close>.
\<close>

datatype lex_state = Blank | Word | Quoted char | EscapedWord | EscapedQuoted char

definition whitespace :: "char set" where
  "whitespace = {CHR '' '', CHR 0x09, CHR 0x0D, CHR 0x0A}"

definition quotes :: "char set" where
  "quotes = {CHR 0x27, CHR 0x22}"

definition escape :: char where
  "escape = CHR 0x5C"

fun read_tokens :: "lex_state \<Rightarrow> string \<Rightarrow> string \<Rightarrow> error + string list" where
  "read_tokens Blank token [] = Inr []"
| "read_tokens Word token [] = Inr [token]"
| "read_tokens (Quoted q) token [] = Inl (ValueError ''No closing quotation'')"
| "read_tokens EscapedWord token [] = Inl (ValueError ''No escaped character'')"
| "read_tokens (EscapedQuoted q) token [] = Inl (ValueError ''No escaped character'')"
| "read_tokens Blank token (c # cs) =
     (if c \<in> whitespace then read_tokens Blank token cs
      else if c = escape then read_tokens EscapedWord token cs
      else if c \<in> quotes then read_tokens (Quoted c) token cs
      else read_tokens Word [c] cs)"
| "read_tokens Word token (c # cs) =
     (if c \<in> whitespace then
        (case read_tokens Blank [] cs of Inl e \<Rightarrow> Inl e | Inr ts \<Rightarrow> Inr (token # ts))
      else if c \<in> quotes then read_tokens (Quoted c) token cs
      else if c = escape then read_tokens EscapedWord token cs
      else read_tokens Word (token @ [c]) cs)"
| "read_tokens (Quoted q) token (c # cs) =
     (if c = q then read_tokens Word token cs
      else if c = escape \<and> q = CHR 0x22 then read_tokens (EscapedQuoted q) token cs
      else read_tokens (Quoted q) (token @ [c]) cs)"
| "read_tokens EscapedWord token (c # cs) = read_tokens Word (token @ [c]) cs"
| "read_tokens (EscapedQuoted q) token (c # cs) =
     (if c \<noteq> escape \<and> c \<noteq> q then read_tokens (Quoted q) (token @ [escape] @ [c]) cs
      else read_tokens (Quoted q) (token @ [c]) cs)"

definition shlex_split :: "string \<Rightarrow> error + string list" where
  "shlex_split s = read_tokens Blank [] s"

section \<open>DeviceTestEnv\<close>

text \<open>
  \<^verbatim>\<open>check_call(args, stdout=logfile, stderr=logfile)\<close> runs a program, here always
  \<^verbatim>\<open>adb\<close>, with the environment of the interpreter, waits for it, and raises
  \<^verbatim>\<open>CalledProcessError\<close> on a status other than zero. What the program prints goes
  to the log. What it does is a parameter: the error when it cannot be started, or the
  status, the text, and the machine it leaves.
\<close>

type_synonym 'd call =
  "string list \<Rightarrow> pydict \<Rightarrow> 'd machine \<Rightarrow> error + int \<times> string \<times> 'd machine"

text \<open>The fields \<^verbatim>\<open>_host_env_path\<close>, \<^verbatim>\<open>_logfile\<close>, \<^verbatim>\<open>_device_env_path\<close>, \<^verbatim>\<open>_shell_env\<close>.\<close>

record DeviceTestEnv =
  dev_host_env_path :: string
  dev_logfile :: string
  dev_device_env_path :: string
  dev_shell_env :: pydict

text \<open>
  The methods of the device environment write to the log of the object also when they
  raise, so they act on the object together with the world.
\<close>

type_synonym ('a, 'd) device_action =
  "DeviceTestEnv \<times> 'd world \<Rightarrow> (error + 'a) \<times> DeviceTestEnv \<times> 'd world"

definition check_call :: "'d call \<Rightarrow> string list \<Rightarrow> (unit, 'd) device_action" where
  "check_call run args =
     (\<lambda>(self, w).
        case run args (environ w) (mach w) of
          Inl e \<Rightarrow> (Inl e, (self, w))
        | Inr (retcode, text, m') \<Rightarrow>
            let st' = (self\<lparr>dev_logfile := dev_logfile self @ text\<rparr>,
                       w\<lparr>mach := m'\<lparr>children := children (mach w)\<rparr>\<rparr>)
            in if retcode \<noteq> 0 then (Inl (CalledProcessError retcode), st') else (Inr (), st'))"

text \<open>\<^verbatim>\<open>check_call(shlex.split(cmd), ...)\<close>: the split may raise before anything runs.\<close>

definition check_call_split :: "'d call \<Rightarrow> string \<Rightarrow> (unit, 'd) device_action" where
  "check_call_split run cmd st =
     (case shlex_split cmd of Inl e \<Rightarrow> (Inl e, st) | Inr args \<Rightarrow> check_call run args st)"


definition AdbMkdir :: "'d call \<Rightarrow> string \<Rightarrow> (unit, 'd) device_action" where
  "AdbMkdir run path =
     check_call_split run (''adb shell mkdir '' @ dq @ path @ dq @ '' -p'')"

text \<open>\<^verbatim>\<open>DeviceTestEnv._EmptyDexCache(self)\<close>.\<close>

fun device_empty_each :: "'d call \<Rightarrow> string list \<Rightarrow> (unit, 'd) device_action" where
  "device_empty_each run [] = ok ()"
| "device_empty_each run (arch_cache_path # ps) =
     then_do
       (check_call_split run
          (''adb shell if [ -d '' @ dq @ arch_cache_path @ dq @ '' ]; then rm -f ''
             @ dq @ arch_cache_path @ dq @ ''/*; fi''))
       (\<lambda>_. device_empty_each run ps)"

definition DeviceEmptyDexCache :: "'d call \<Rightarrow> (unit, 'd) device_action" where
  "DeviceEmptyDexCache run =
     (\<lambda>(self, w). device_empty_each run (DexArchCachePaths (dev_device_env_path self)) (self, w))"

text \<open>
  \<^verbatim>\<open>DeviceTestEnv.__init__(self)\<close>. The object exists from the first line on; the
  constructor returns it when no line has raised.
\<close>

fun adb_mkdir_each :: "'d call \<Rightarrow> string list \<Rightarrow> (unit, 'd) device_action" where
  "adb_mkdir_each run [] = ok ()"
| "adb_mkdir_each run (p # ps) = then_do (AdbMkdir run p) (\<lambda>_. adb_mkdir_each run ps)"

definition DeviceTestEnv_init :: "'d call \<Rightarrow> 'd world \<Rightarrow> (error + DeviceTestEnv) \<times> 'd world" where
  "DeviceTestEnv_init run w =
     (case mkdtemp ''/tmp/'' ''bisection_search_'' w of
        (Inl e, w1) \<Rightarrow> (Inl e, w1)
      | (Inr host_path, w1) \<Rightarrow>
          (case open_w (host_path @ ''/log'') w1 of
             (Inl e, w2) \<Rightarrow> (Inl e, w2)
           | (Inr _, w2) \<Rightarrow>
               let device_env_path = DEVICE_TMP_PATH @ ''/'' @ basename host_path;
                   self = \<lparr>dev_host_env_path = host_path, dev_logfile = [],
                           dev_device_env_path = device_env_path, dev_shell_env = environ w2\<rparr>
               in case then_do (AdbMkdir run (device_env_path @ ''/dalvik-cache''))
                         (\<lambda>_. adb_mkdir_each run (DexArchCachePaths device_env_path)) (self, w2) of
                    (Inl e, (self', w3)) \<Rightarrow> (Inl e, w3)
                  | (Inr _, (self', w3)) \<Rightarrow> (Inr self', w3)))"


text \<open>
  \<^verbatim>\<open>DeviceTestEnv.RunCommand(self, cmd, env_updates=None)\<close>. The argument is \<^verbatim>\<open>None\<close>
  or a reference to the caller's dict. The first statement binds the name to a new
  empty dict when the argument is \<^verbatim>\<open>None\<close> or empty; the statement after the cache
  is emptied stores into the dict the name is bound to.
\<close>

definition default_updates :: "nat option \<Rightarrow> 'd world \<Rightarrow> nat \<times> 'd world" where
  "default_updates env_updates w =
     (case env_updates of
        None \<Rightarrow> (length (heap w), w\<lparr>heap := heap w @ [[]]\<rparr>)
      | Some r \<Rightarrow>
          if heap w ! r = [] then (length (heap w), w\<lparr>heap := heap w @ [[]]\<rparr>) else (r, w))"

definition DeviceRunCommand ::
  "'d popen \<Rightarrow> 'd call \<Rightarrow> string list \<Rightarrow> nat option \<Rightarrow> (string \<times> int, 'd) device_action" where
  "DeviceRunCommand popen run cmd env_updates =
     (\<lambda>(self, w).
        let (env_updates, w) = default_updates env_updates w in
        then_do (DeviceEmptyDexCache run) (\<lambda>_ (self, w).
          let w = (if dict_get (heap w ! env_updates) ''ANDROID_DATA'' = None
                   then w\<lparr>heap := (heap w)[env_updates :=
                            dict_set (heap w ! env_updates) ''ANDROID_DATA'' (dev_device_env_path self)]\<rparr>
                   else w);
              env_updates_cmd =
                join '' '' (map (\<lambda>(var, val). var @ ''='' @ val) (heap w ! env_updates));
              cmd = CommandListToCommandString cmd;
              cmd = ''adb shell '' @ dq @ ''logcat -c && '' @ env_updates_cmd @ '' '' @ cmd
                      @ '' ; logcat -d -s dex2oat:* dex2oatd:*''
                      @ ''| grep -v '' @ dq @ ''^---------'' @ dq @ '' 1>&2'' @ dq
          in case shlex_split cmd of
               Inl e \<Rightarrow> (Inl e, (self, w))
             | Inr args \<Rightarrow>
                 let (res, logfile', m') =
                       RunCommandForOutputAndLog popen args (dev_shell_env self) (dev_logfile self)
                         DEFAULT_TIMEOUT (mach w)
                 in (res, (self\<lparr>dev_logfile := logfile'\<rparr>, w\<lparr>mach := m'\<rparr>))) (self, w))"

section \<open>Reading a file back\<close>




section \<open>A small world to run the definitions in\<close>

text \<open>
  A host with \<^verbatim>\<open>/tmp\<close>, three variables in the environment and the temporary names
  \<^verbatim>\<open>abc\<close> and \<^verbatim>\<open>k7\<close> to come; the object that the constructor builds there, and the
  world it leaves.
\<close>

definition example_world :: "unit world" where
  "example_world =
     \<lparr>mach = \<lparr>host_fs = [(''/tmp'', Dir)], device_st = (), children = []\<rparr>,
      environ = [(''ANDROID_HOST_OUT'', ''/out''), (''PATH'', ''/usr/bin''), (''HOME'', ''/root'')],
      candidates = [''abc'', ''k7''], tempdir = ''/tmp'', heap = []\<rparr>"

definition example_env :: HostTestEnv where
  "example_env =
     \<lparr>host_env_path = ''/tmp/bisection_search_abc'', host_logfile = [],
      host_shell_env =
        [(''ANDROID_HOST_OUT'', ''/out''), (''PATH'', ''/out/bin:/usr/bin''), (''HOME'', ''/root''),
         (''ANDROID_DATA'', ''/tmp/bisection_search_abc''), (''ANDROID_ROOT'', ''/out''),
         (''LD_LIBRARY_PATH'', ''/out/lib''), (''DYLD_LIBRARY_PATH'', ''/out/lib''),
         (''LD_USE_LOAD_BIAS'', ''1'')]\<rparr>"

definition example_world_made :: "unit world" where
  "example_world_made =
     \<lparr>mach =
        \<lparr>host_fs =
           [(''/tmp'', Dir), (''/tmp/bisection_search_abc'', Dir),
            (''/tmp/bisection_search_abc/log'', File []),
            (''/tmp/bisection_search_abc/dalvik-cache'', Dir),
            (''/tmp/bisection_search_abc/dalvik-cache/arm'', Dir),
            (''/tmp/bisection_search_abc/dalvik-cache/arm64'', Dir),
            (''/tmp/bisection_search_abc/dalvik-cache/x86'', Dir),
            (''/tmp/bisection_search_abc/dalvik-cache/x86_64'', Dir)],
         device_st = (), children = []\<rparr>,
      environ = [(''ANDROID_HOST_OUT'', ''/out''), (''PATH'', ''/usr/bin''), (''HOME'', ''/root'')],
      candidates = [''k7''], tempdir = ''/tmp'', heap = []\<rparr>"

text \<open>A child that prints nothing and ends with status 0.\<close>

definition quiet_child :: "unit popen" where
  "quiet_child cmd env timeout m = Exited (Inr []) 0 m"

text \<open>
  A child that is killed after the timeout having printed \<^verbatim>\<open>par\<close>, and one that
  ends with status 2 and a complaint.
\<close>

definition slow_child :: "unit popen" where
  "slow_child cmd env timeout m = TimeoutExpired (Inr ''par'') m"

definition failing_child :: "unit popen" where
  "failing_child cmd env timeout m = Exited (Inr ''no such file'') 2 m"

text \<open>The same host without \<^verbatim>\<open>ANDROID_HOST_OUT\<close>.\<close>

definition example_world_unset :: "unit world" where
  "example_world_unset =
     \<lparr>mach = \<lparr>host_fs = [(''/tmp'', Dir)], device_st = (), children = []\<rparr>,
      environ = [(''PATH'', ''/usr/bin''), (''HOME'', ''/root'')],
      candidates = [''abc'', ''k7''], tempdir = ''/tmp'', heap = []\<rparr>"

text \<open>
  The world after the constructor, with compiled files in two of the cache directories
  and a subdirectory that holds a file of its own.
\<close>

definition example_world_cached :: "unit world" where
  "example_world_cached =
     \<lparr>mach =
        \<lparr>host_fs =
           [(''/tmp'', Dir), (''/tmp/bisection_search_abc'', Dir),
            (''/tmp/bisection_search_abc/log'', File []),
            (''/tmp/bisection_search_abc/dalvik-cache'', Dir),
            (''/tmp/bisection_search_abc/dalvik-cache/arm'', Dir),
            (''/tmp/bisection_search_abc/dalvik-cache/arm64'', Dir),
            (''/tmp/bisection_search_abc/dalvik-cache/x86'', Dir),
            (''/tmp/bisection_search_abc/dalvik-cache/x86_64'', Dir),
            (''/tmp/bisection_search_abc/dalvik-cache/arm/boot.oat'', File ''x''),
            (''/tmp/bisection_search_abc/dalvik-cache/arm/sub'', Dir),
            (''/tmp/bisection_search_abc/dalvik-cache/arm/sub/keep.oat'', File ''y''),
            (''/tmp/bisection_search_abc/dalvik-cache/x86_64/a.dex'', File ''z'')],
         device_st = (), children = []\<rparr>,
      environ = [(''ANDROID_HOST_OUT'', ''/out''), (''PATH'', ''/usr/bin''), (''HOME'', ''/root'')],
      candidates = [''k7''], tempdir = ''/tmp'', heap = []\<rparr>"

text \<open>
  An \<^verbatim>\<open>adb\<close> that prints nothing and ends with status 0; the device environment that
  the constructor builds with it in the example world; and the world it leaves, with
  two dicts that a caller holds: one without and one with \<^verbatim>\<open>ANDROID_DATA\<close>.
\<close>

definition quiet_adb :: "unit call" where
  "quiet_adb args env m = Inr (0, [], m)"

definition example_device :: DeviceTestEnv where
  "example_device =
     \<lparr>dev_host_env_path = ''/tmp/bisection_search_abc'', dev_logfile = [],
      dev_device_env_path = ''/data/local/tmp/bisection_search_abc'',
      dev_shell_env = [(''ANDROID_HOST_OUT'', ''/out''), (''PATH'', ''/usr/bin''), (''HOME'', ''/root'')]\<rparr>"

definition example_device_world :: "unit world" where
  "example_device_world =
     \<lparr>mach =
        \<lparr>host_fs = [(''/tmp'', Dir), (''/tmp/bisection_search_abc'', Dir),
                    (''/tmp/bisection_search_abc/log'', File [])],
         device_st = (), children = []\<rparr>,
      environ = [(''ANDROID_HOST_OUT'', ''/out''), (''PATH'', ''/usr/bin''), (''HOME'', ''/root'')],
      candidates = [''k7''], tempdir = ''/tmp'',
      heap = [[(''LANG'', ''C'')], [(''ANDROID_DATA'', ''/elsewhere''), (''LANG'', ''C'')]]\<rparr>"

text \<open>An \<^verbatim>\<open>adb\<close> that finds no device: it complains and ends with status 1.\<close>

definition failing_adb :: "unit call" where
  "failing_adb args env m = Inr (1, ''error: no devices/emulators found'', m)"

text \<open>
  A program that is not there, so that \<^verbatim>\<open>Popen\<close> raises; a child that ends with status
  0 having printed bytes that are no text; and one that prints such bytes and has to be
  killed.
\<close>

definition missing_child :: "unit popen" where
  "missing_child cmd env timeout m = NotStarted FileNotFoundError"

definition garbled_child :: "unit popen" where
  "garbled_child cmd env timeout m = Exited (Inl UnicodeDecodeError) 0 m"

definition garbled_slow_child :: "unit popen" where
  "garbled_slow_child cmd env timeout m = TimeoutExpired (Inl UnicodeDecodeError) m"



section \<open>Properties of the command runner\<close>





text \<open>What \<^verbatim>\<open>HostTestEnv.RunCommand\<close> returns once the cache has been emptied.\<close>

lemma HostRunCommand_after_cache:
  assumes "HostEmptyDexCache self w = (Inr (), w')"
  shows "HostRunCommand popen self cmd env_updates w =
           (case RunCommandForOutputAndLog popen cmd
                   (dict_update (host_shell_env self) (case env_updates of None \<Rightarrow> [] | Some d \<Rightarrow> d))
                   (host_logfile self) DEFAULT_TIMEOUT (mach w') of
              (res, logfile', m') \<Rightarrow> (res, self\<lparr>host_logfile := logfile'\<rparr>, w'\<lparr>mach := m'\<rparr>))"
proof -
  have "(case env_updates of None \<Rightarrow> [] | Some d \<Rightarrow> if d = [] then [] else d) =
        (case env_updates of None \<Rightarrow> [] | Some d \<Rightarrow> d)"
    by (cases env_updates) auto
  with assms show ?thesis
    by (simp add: HostRunCommand_def Let_def split: prod.splits)
qed

text \<open>When the cache cannot be emptied the method raises and starts no child.\<close>

lemma HostRunCommand_cache_raises:
  assumes "HostEmptyDexCache self w = (Inl e, w')"
  shows "HostRunCommand popen self cmd env_updates w = (Inl e, self, w')"
  using assms by (simp add: HostRunCommand_def Let_def)

section \<open>Properties of HostTestEnv\<close>

lemma then_do_Inr_iff:
  "then_do f g w = (Inr b, w') \<longleftrightarrow> (\<exists>a w1. f w = (Inr a, w1) \<and> g a w1 = (Inr b, w'))"
  by (auto simp: then_do_def split: prod.splits sum.splits)

lemma dict_get_dict_set:
  "dict_get (dict_set d k v) k' = (if k' = k then Some v else dict_get d k')"
  by (simp add: dict_get_def dict_set_def update_conv')

lemma dict_get_Cons:
  "dict_get ((a, b) # e) k = (if a = k then Some b else dict_get e k)"
  by (simp add: dict_get_def)

lemma dict_get_Nil: "dict_get [] k = None"
  by (simp add: dict_get_def)

lemma dict_get_absent: "k \<notin> fst ` set e \<Longrightarrow> dict_get e k = None"
  by (simp add: dict_get_def map_of_eq_None_iff)

lemma dict_get_dict_update:
  "wf_dict e \<Longrightarrow>
   dict_get (dict_update d e) k = (case dict_get e k of Some v \<Rightarrow> Some v | None \<Rightarrow> dict_get d k)"
  unfolding dict_update_def wf_dict_def
proof (induction e arbitrary: d)
  case Nil
  then show ?case by (simp add: dict_get_def)
next
  case (Cons a e)
  obtain a1 a2 where a: "a = (a1, a2)" by (cases a)
  from Cons.prems a have d: "distinct (map fst e)" and n: "a1 \<notin> fst ` set e" by auto
  from n have "dict_get e a1 = None" by (rule dict_get_absent)
  with Cons.IH [OF d, of "dict_set d a1 a2"] a show ?case
    by (auto simp: dict_get_dict_set dict_get_Cons split: option.splits)
qed

lemma environ_set_fs [simp]: "environ (set_fs f w) = environ w"
  by (simp add: set_fs_def)

lemma mkdtemp_environ: "mkdtemp d p w = (r, w') \<Longrightarrow> environ w' = environ w"
  by (auto simp: mkdtemp_def split: option.splits)

lemma open_w_environ: "open_w p w = (r, w') \<Longrightarrow> environ w' = environ w"
  by (auto simp: open_w_def split: option.splits)

lemma os_mkdir_environ: "os_mkdir p w = (r, w') \<Longrightarrow> environ w' = environ w"
  by (auto simp: os_mkdir_def split: if_splits option.splits)

lemma mkdir_each_environ: "mkdir_each ps w = (r, w') \<Longrightarrow> environ w' = environ w"
proof (induction ps arbitrary: w)
  case Nil
  then show ?case by (simp add: ok_def)
next
  case (Cons p ps)
  show ?case
  proof (cases "os_mkdir p w")
    case (Pair x w1)
    note e = os_mkdir_environ [OF Pair]
    show ?thesis
    proof (cases x)
      case (Inl err)
      with Pair Cons.prems e show ?thesis by (simp add: then_do_def)
    next
      case (Inr u)
      with Pair Cons.prems have "mkdir_each ps w1 = (r, w')" by (simp add: then_do_def)
      from Cons.IH [OF this] e show ?thesis by simp
    qed
  qed
qed

lemma GetEnv_Inr:
  "GetEnvVariableOrError n w = (Inr v, w') \<Longrightarrow> dict_get (environ w) n = Some v \<and> w' = w"
  by (auto simp: GetEnvVariableOrError_def split: option.splits)

text \<open>What the constructor has put into \<^verbatim>\<open>_shell_env\<close> when it returns.\<close>

lemma init_shell_env:
  assumes "HostTestEnv_init x64 w0 = (Inr self, w1)"
  shows "\<exists>android_root old_path.
           dict_get (environ w0) ''ANDROID_HOST_OUT'' = Some android_root
         \<and> dict_get (environ w0) ''PATH'' = Some old_path
         \<and> (\<forall>v. dict_get (host_shell_env self) v =
                (if v = ''ANDROID_DATA'' then Some (host_env_path self)
                 else if v = ''ANDROID_ROOT'' then Some android_root
                 else if v = ''LD_LIBRARY_PATH'' \<or> v = ''DYLD_LIBRARY_PATH''
                   then Some (android_root @ ''/'' @ (if x64 then ''lib64'' else ''lib''))
                 else if v = ''PATH'' then Some (android_root @ ''/bin'' @ '':'' @ old_path)
                 else if v = ''LD_USE_LOAD_BIAS'' then Some ''1''
                 else dict_get (environ w0) v))"
  using assms unfolding HostTestEnv_init_def
  apply (clarsimp simp: then_do_Inr_iff Let_def split: option.splits)
  apply (drule mkdtemp_environ open_w_environ os_mkdir_environ mkdir_each_environ GetEnv_Inr)+
  apply (clarsimp simp: dict_get_dict_set)
  done

text \<open>
  C5. Let the object come from the constructor, and let the cache directories be there
  so that the call reaches the child. The child is then started with an environment in
  which a variable of the override dict has the override's value; otherwise one of the
  six variables that the constructor binds has the constructor's value; otherwise the
  variable has the value of the inherited environment, if any.
\<close>

theorem host_environment_precedence:
  assumes "HostTestEnv_init x64 w0 = (Inr self, w1)"
    and "wf_dict (case env_updates of None \<Rightarrow> [] | Some d \<Rightarrow> d)"
    and "HostEmptyDexCache self w = (Inr (), w')"
  shows "\<exists>env android_root old_path.
           dict_get (environ w0) ''ANDROID_HOST_OUT'' = Some android_root
         \<and> dict_get (environ w0) ''PATH'' = Some old_path
         \<and> HostRunCommand popen self cmd env_updates w =
             (case RunCommandForOutputAndLog popen cmd env (host_logfile self) DEFAULT_TIMEOUT (mach w') of
                (res, logfile', m') \<Rightarrow> (res, self\<lparr>host_logfile := logfile'\<rparr>, w'\<lparr>mach := m'\<rparr>))
         \<and> (\<forall>v. dict_get env v =
                (case dict_get (case env_updates of None \<Rightarrow> [] | Some d \<Rightarrow> d) v of
                   Some x \<Rightarrow> Some x
                 | None \<Rightarrow>
                     if v = ''ANDROID_DATA'' then Some (host_env_path self)
                     else if v = ''ANDROID_ROOT'' then Some android_root
                     else if v = ''LD_LIBRARY_PATH'' \<or> v = ''DYLD_LIBRARY_PATH''
                       then Some (android_root @ ''/'' @ (if x64 then ''lib64'' else ''lib''))
                     else if v = ''PATH'' then Some (android_root @ ''/bin'' @ '':'' @ old_path)
                     else if v = ''LD_USE_LOAD_BIAS'' then Some ''1''
                     else dict_get (environ w0) v))"
proof -
  from init_shell_env [OF assms(1)] obtain android_root old_path where
    a: "dict_get (environ w0) ''ANDROID_HOST_OUT'' = Some android_root"
    and b: "dict_get (environ w0) ''PATH'' = Some old_path"
    and c: "\<And>v. dict_get (host_shell_env self) v =
                (if v = ''ANDROID_DATA'' then Some (host_env_path self)
                 else if v = ''ANDROID_ROOT'' then Some android_root
                 else if v = ''LD_LIBRARY_PATH'' \<or> v = ''DYLD_LIBRARY_PATH''
                   then Some (android_root @ ''/'' @ (if x64 then ''lib64'' else ''lib''))
                 else if v = ''PATH'' then Some (android_root @ ''/bin'' @ '':'' @ old_path)
                 else if v = ''LD_USE_LOAD_BIAS'' then Some ''1''
                 else dict_get (environ w0) v)"
    by blast
  let ?upd = "case env_updates of None \<Rightarrow> [] | Some d \<Rightarrow> d"
  let ?env = "dict_update (host_shell_env self) ?upd"
  have d: "\<And>v. dict_get ?env v =
             (case dict_get ?upd v of Some x \<Rightarrow> Some x | None \<Rightarrow> dict_get (host_shell_env self) v)"
    by (rule dict_get_dict_update [OF assms(2)])
  show ?thesis
    apply (rule exI [of _ ?env], rule exI [of _ android_root], rule exI [of _ old_path])
    apply (intro conjI a b HostRunCommand_after_cache [OF assms(3)])
    apply (simp only: d c)
    apply simp
    done
qed

theorem host_environment_precedence_witness:
  "HostTestEnv_init False example_world = (Inr example_env, example_world_made)
   \<and> wf_dict [(''PATH'', ''/x''), (''LANG'', ''C'')]
   \<and> HostEmptyDexCache example_env example_world_made = (Inr (), example_world_made)
   \<and> (\<exists>env. HostRunCommand quiet_child example_env [''true'']
                (Some [(''PATH'', ''/x''), (''LANG'', ''C'')]) example_world_made =
              (case RunCommandForOutputAndLog quiet_child [''true''] env
                      (host_logfile example_env) DEFAULT_TIMEOUT (mach example_world_made) of
                 (res, logfile', m') \<Rightarrow>
                   (res, example_env\<lparr>host_logfile := logfile'\<rparr>, example_world_made\<lparr>mach := m'\<rparr>))
            \<and> dict_get env ''PATH'' = Some ''/x''
            \<and> dict_get env ''LANG'' = Some ''C''
            \<and> dict_get env ''ANDROID_ROOT'' = Some ''/out''
            \<and> dict_get env ''LD_LIBRARY_PATH'' = Some ''/out/lib''
            \<and> dict_get env ''HOME'' = Some ''/root''
            \<and> dict_get env ''SHELL'' = None)"
proof -
  have 1: "HostTestEnv_init False example_world = (Inr example_env, example_world_made)"
    by code_simp
  have wf: "wf_dict [(''PATH'', ''/x''), (''LANG'', ''C'')]"
    by (simp add: wf_dict_def)
  then have 2: "wf_dict (case Some [(''PATH'', ''/x''), (''LANG'', ''C'')] of None \<Rightarrow> [] | Some d \<Rightarrow> d)"
    by simp
  have 3: "HostEmptyDexCache example_env example_world_made = (Inr (), example_world_made)"
    by code_simp
  from host_environment_precedence [OF 1 2 3, of quiet_child "[''true'']"]
  obtain env android_root old_path where
    a: "dict_get (environ example_world) ''ANDROID_HOST_OUT'' = Some android_root"
    and b: "dict_get (environ example_world) ''PATH'' = Some old_path"
    and r: "HostRunCommand quiet_child example_env [''true'']
                (Some [(''PATH'', ''/x''), (''LANG'', ''C'')]) example_world_made =
              (case RunCommandForOutputAndLog quiet_child [''true''] env
                      (host_logfile example_env) DEFAULT_TIMEOUT (mach example_world_made) of
                 (res, logfile', m') \<Rightarrow>
                   (res, example_env\<lparr>host_logfile := logfile'\<rparr>, example_world_made\<lparr>mach := m'\<rparr>))"
    and e: "\<And>v. dict_get env v =
                (case dict_get (case Some [(''PATH'', ''/x''), (''LANG'', ''C'')] of None \<Rightarrow> [] | Some d \<Rightarrow> d) v of
                   Some x \<Rightarrow> Some x
                 | None \<Rightarrow>
                     if v = ''ANDROID_DATA'' then Some (host_env_path example_env)
                     else if v = ''ANDROID_ROOT'' then Some android_root
                     else if v = ''LD_LIBRARY_PATH'' \<or> v = ''DYLD_LIBRARY_PATH''
                       then Some (android_root @ ''/'' @ (if False then ''lib64'' else ''lib''))
                     else if v = ''PATH'' then Some (android_root @ ''/bin'' @ '':'' @ old_path)
                     else if v = ''LD_USE_LOAD_BIAS'' then Some ''1''
                     else dict_get (environ example_world) v)"
    by blast
  from a have ar: "android_root = ''/out''"
    by (simp add: example_world_def dict_get_def)
  have g: "dict_get env ''PATH'' = Some ''/x''" "dict_get env ''LANG'' = Some ''C''"
    "dict_get env ''ANDROID_ROOT'' = Some ''/out''" "dict_get env ''LD_LIBRARY_PATH'' = Some ''/out/lib''"
    "dict_get env ''HOME'' = Some ''/root''" "dict_get env ''SHELL'' = None"
    by (simp_all add: e ar dict_get_Cons dict_get_Nil example_world_def)
  show ?thesis
    apply (intro conjI exI [of _ env])
    apply (rule 1 wf 3 r g)+
    done
qed

section \<open>The constructor without its variable\<close>

lemma then_do_Inl_iff:
  "then_do f g w = (Inl e, w') \<longleftrightarrow>
     f w = (Inl e, w') \<or> (\<exists>a w1. f w = (Inr a, w1) \<and> g a w1 = (Inl e, w'))"
  by (auto simp: then_do_def split: prod.splits sum.splits)

lemma the_fs_set_fs [simp]: "the_fs (set_fs f w) = f"
  by (simp add: the_fs_def set_fs_def)

lemma the_fs_candidates [simp]: "the_fs (w\<lparr>candidates := c\<rparr>) = the_fs w"
  by (simp add: the_fs_def)

lemma isdir_update:
  "isdir (AList.update q n f) r = (if r = q then n = Dir else isdir f r)"
  by (auto simp: isdir_def update_conv' split: node.splits)

lemma isdir_absent: "map_of f p = None \<Longrightarrow> \<not> isdir f p"
  by (simp add: isdir_def)

lemma first_free_Some:
  "first_free f d pre ns = Some (p, rest) \<Longrightarrow> map_of f p = None"
  by (induction ns) (auto split: if_splits)

lemma mkdtemp_Inr:
  assumes "mkdtemp d pre w = (Inr p, w')"
  shows "map_of (the_fs w) p = None" and "the_fs w' = AList.update p Dir (the_fs w)"
  using assms by (auto simp: mkdtemp_def split: option.splits dest: first_free_Some)

lemma mkdtemp_Inl: "mkdtemp d pre w = (Inl e, w') \<Longrightarrow> e \<noteq> FatalError msg"
  by (auto simp: mkdtemp_def split: option.splits)

lemma open_w_Inr:
  assumes "open_w q w = (Inr u, w')"
  shows "the_fs w' = AList.update q (File []) (the_fs w)" and "\<not> isdir (the_fs w) q"
    and "open_error (the_fs w) q = None" and "u = q"
  using assms
  by (auto simp: open_w_def open_error_def Let_def split: option.splits if_splits)

lemma parent_error_not_Fatal: "parent_error f p \<noteq> Some (FatalError msg)"
  by (simp add: parent_error_def split: option.splits node.splits)

lemma open_error_not_Fatal: "open_error f p \<noteq> Some (FatalError msg)"
  using parent_error_not_Fatal [of f]
  by (auto simp: open_error_def Let_def split: option.splits if_splits)

lemma open_w_Inl: "open_w q w = (Inl e, w') \<Longrightarrow> e \<noteq> FatalError msg"
  using open_error_not_Fatal [of "the_fs w" q msg]
  by (auto simp: open_w_def split: option.splits)

lemma os_mkdir_Inr:
  assumes "os_mkdir q w = (Inr u, w')"
  shows "the_fs w' = AList.update q Dir (the_fs w)" and "map_of (the_fs w) q = None"
  using assms by (auto simp: os_mkdir_def split: if_splits option.splits)

lemma os_mkdir_Inl: "os_mkdir q w = (Inl e, w') \<Longrightarrow> e \<noteq> FatalError msg"
  using parent_error_not_Fatal [of "the_fs w" q msg]
  by (auto simp: os_mkdir_def split: if_splits option.splits)

lemma mkdir_each_Inl: "mkdir_each ps w = (Inl e, w') \<Longrightarrow> e \<noteq> FatalError msg"
  by (induction ps arbitrary: w) (auto simp: ok_def then_do_Inl_iff dest: os_mkdir_Inl)

lemma mkdir_each_Inr:
  "mkdir_each ps w = (Inr u, w') \<Longrightarrow>
     (\<forall>q \<in> set ps. isdir (the_fs w') q) \<and> (\<forall>r. isdir (the_fs w) r \<longrightarrow> isdir (the_fs w') r)"
proof (induction ps arbitrary: w)
  case Nil
  then show ?case by (simp add: ok_def)
next
  case (Cons p ps)
  from Cons.prems obtain v w1 where 1: "os_mkdir p w = (Inr v, w1)"
    and 2: "mkdir_each ps w1 = (Inr u, w')"
    by (auto simp: then_do_Inr_iff)
  from os_mkdir_Inr [OF 1] have "isdir (the_fs w1) p" "\<And>r. isdir (the_fs w) r \<Longrightarrow> isdir (the_fs w1) r"
    by (auto simp: isdir_update dest: isdir_absent)
  with Cons.IH [OF 2] show ?case by auto
qed

lemma GetEnv_Inl:
  "GetEnvVariableOrError n w = (Inl e, w') \<Longrightarrow>
   w' = w \<and> e = FatalError (n @ '' environmental variable not set.'')"
  by (auto simp: GetEnvVariableOrError_def split: option.splits)

lemma init_dirs_made:
  assumes "mkdtemp d pre w = (Inr p, wa)"
    and "open_w (p @ ''/log'') wa = (Inr u, wb)"
    and "os_mkdir (p @ ''/dalvik-cache'') wb = (Inr v, wc)"
    and "mkdir_each ps wc = (Inr x, wd)"
  shows "map_of (the_fs w) p = None \<and> isdir (the_fs wd) p
       \<and> isdir (the_fs wd) (p @ ''/dalvik-cache'') \<and> (\<forall>a \<in> set ps. isdir (the_fs wd) a)"
proof -
  from mkdtemp_Inr [OF assms(1)] have 1: "map_of (the_fs w) p = None" "isdir (the_fs wa) p"
    by (simp_all add: isdir_update)
  from open_w_Inr [OF assms(2)] 1 have 2: "isdir (the_fs wb) p"
    by (simp add: isdir_update)
  from os_mkdir_Inr [OF assms(3)] 2 have 3: "isdir (the_fs wc) p" "isdir (the_fs wc) (p @ ''/dalvik-cache'')"
    by (simp_all add: isdir_update)
  from mkdir_each_Inr [OF assms(4)] 1 3 show ?thesis by blast
qed

lemma init_FatalError_dirs:
  assumes "HostTestEnv_init x64 w = (Inl (FatalError msg), w')"
  shows "\<exists>p. map_of (the_fs w) p = None \<and> isdir (the_fs w') p
       \<and> isdir (the_fs w') (p @ ''/dalvik-cache'')
       \<and> (\<forall>a \<in> set (DexArchCachePaths p). isdir (the_fs w') a)"
  using assms unfolding HostTestEnv_init_def
  apply (simp add: then_do_Inl_iff Let_def)
  apply (elim disjE exE conjE)
       apply (drule mkdtemp_Inl [where msg = msg], simp)
      apply (drule open_w_Inl [where msg = msg], simp)
     apply (drule os_mkdir_Inl [where msg = msg], simp)
    apply (drule mkdir_each_Inl [where msg = msg], simp)
   apply (frule GetEnv_Inl)
   apply (blast dest: init_dirs_made)
  apply (simp split: option.splits)
  done


lemma first_free_member:
  "first_free f d pre ns = Some (p, rest) \<Longrightarrow> \<exists>c \<in> set ns. p = path_join d (pre @ c)"
  by (induction ns) (auto split: if_splits)

lemma scratch_path_not_empty:
  assumes "first_free f ''/tmp/'' ''bisection_search_'' ns = Some (p, rest)"
  shows "p \<noteq> []"
  using first_free_member [OF assms] by (auto simp: path_join_def)

lemma below_None:
  "\<forall>q. map_of f (p @ ''/'' @ q) = None \<Longrightarrow> map_of f (p @ CHR ''/'' # q) = None"
  by simp

lemma init_unset_reaches_check:
  assumes "dict_get (environ w) ''ANDROID_HOST_OUT'' = None"
    and "first_free (the_fs w) ''/tmp/'' ''bisection_search_'' (candidates w) = Some (p, rest)"
    and "\<forall>q. map_of (the_fs w) (p @ ''/'' @ q) = None"
  shows "\<exists>w'. HostTestEnv_init x64 w =
           (Inl (FatalError ''ANDROID_HOST_OUT environmental variable not set.''), w')"
  using assms(1,2) below_None [OF assms(3)] scratch_path_not_empty [OF assms(2)]
  by (simp add: HostTestEnv_init_def then_do_def mkdtemp_def open_w_def os_mkdir_def
      open_error_def parent_error_def parent_def
      DexArchCachePaths_def DALVIK_CACHE_ARCHS_def isdir_def update_conv' ok_def
      GetEnvVariableOrError_def Let_def)

text \<open>
  C7, as stated, fails: without \<^verbatim>\<open>ANDROID_HOST_OUT\<close> the constructor does raise the
  \<^verbatim>\<open>FatalError\<close> that names the variable, but by then it has made the scratch
  directory and the cache directories, which were not there before.
\<close>

theorem init_unset_makes_directories_first:
  "dict_get (environ example_world_unset) ''ANDROID_HOST_OUT'' = None
   \<and> fst (HostTestEnv_init False example_world_unset) =
       Inl (FatalError ''ANDROID_HOST_OUT environmental variable not set.'')
   \<and> \<not> isdir (the_fs example_world_unset) ''/tmp/bisection_search_abc''
   \<and> isdir (the_fs (snd (HostTestEnv_init False example_world_unset))) ''/tmp/bisection_search_abc''
   \<and> isdir (the_fs (snd (HostTestEnv_init False example_world_unset)))
        ''/tmp/bisection_search_abc/dalvik-cache''
   \<and> isdir (the_fs (snd (HostTestEnv_init False example_world_unset)))
        ''/tmp/bisection_search_abc/dalvik-cache/x86_64''"
  by code_simp

text \<open>
  C7, amended. Without \<^verbatim>\<open>ANDROID_HOST_OUT\<close> the constructor never returns an object:
  it raises. Whenever what it raises is the \<^verbatim>\<open>FatalError\<close> naming the variable, a
  scratch directory that did not exist before, its \<^verbatim>\<open>dalvik-cache\<close> and the four
  architecture directories exist at that moment. And it is this error that is raised
  when a temporary name is free and nothing lies below the new directory.
\<close>

theorem init_without_ANDROID_HOST_OUT:
  assumes "dict_get (environ w) ''ANDROID_HOST_OUT'' = None"
  shows "\<exists>e w'. HostTestEnv_init x64 w = (Inl e, w')
           \<and> (e = FatalError ''ANDROID_HOST_OUT environmental variable not set.'' \<longrightarrow>
                (\<exists>p. map_of (the_fs w) p = None \<and> isdir (the_fs w') p
                   \<and> isdir (the_fs w') (p @ ''/dalvik-cache'')
                   \<and> (\<forall>a \<in> set (DexArchCachePaths p). isdir (the_fs w') a)))
           \<and> (\<forall>p rest.
                 first_free (the_fs w) ''/tmp/'' ''bisection_search_'' (candidates w) = Some (p, rest)
                 \<and> (\<forall>q. map_of (the_fs w) (p @ ''/'' @ q) = None)
                 \<longrightarrow> e = FatalError ''ANDROID_HOST_OUT environmental variable not set.'')"
proof -
  obtain r w' where R: "HostTestEnv_init x64 w = (r, w')"
    by (cases "HostTestEnv_init x64 w")
  have "\<exists>e. r = Inl e"
  proof (cases r)
    case (Inl e)
    then show ?thesis by simp
  next
    case (Inr self)
    with R init_shell_env [of x64 w self w'] assms show ?thesis by auto
  qed
  then obtain e where e: "r = Inl e" ..
  have dirs: "e = FatalError ''ANDROID_HOST_OUT environmental variable not set.'' \<longrightarrow>
                (\<exists>p. map_of (the_fs w) p = None \<and> isdir (the_fs w') p
                   \<and> isdir (the_fs w') (p @ ''/dalvik-cache'')
                   \<and> (\<forall>a \<in> set (DexArchCachePaths p). isdir (the_fs w') a))"
    using R e by (auto dest: init_FatalError_dirs)
  have reach: "\<forall>p rest.
                 first_free (the_fs w) ''/tmp/'' ''bisection_search_'' (candidates w) = Some (p, rest)
                 \<and> (\<forall>q. map_of (the_fs w) (p @ ''/'' @ q) = None)
                 \<longrightarrow> e = FatalError ''ANDROID_HOST_OUT environmental variable not set.''"
  proof (intro allI impI, elim conjE)
    fix p rest
    assume "first_free (the_fs w) ''/tmp/'' ''bisection_search_'' (candidates w) = Some (p, rest)"
      and "\<forall>q. map_of (the_fs w) (p @ ''/'' @ q) = None"
    from init_unset_reaches_check [OF assms this, of x64] R e
    show "e = FatalError ''ANDROID_HOST_OUT environmental variable not set.''"
      by auto
  qed
  from R e dirs reach show ?thesis by blast
qed

theorem init_without_ANDROID_HOST_OUT_witness:
  "dict_get (environ example_world_unset) ''ANDROID_HOST_OUT'' = None
   \<and> first_free (the_fs example_world_unset) ''/tmp/'' ''bisection_search_''
         (candidates example_world_unset) = Some (''/tmp/bisection_search_abc'', [''k7''])
   \<and> (\<forall>q. map_of (the_fs example_world_unset) (''/tmp/bisection_search_abc'' @ ''/'' @ q) = None)
   \<and> (\<exists>w' p. HostTestEnv_init False example_world_unset =
                 (Inl (FatalError ''ANDROID_HOST_OUT environmental variable not set.''), w')
          \<and> map_of (the_fs example_world_unset) p = None \<and> isdir (the_fs w') p
          \<and> isdir (the_fs w') (p @ ''/dalvik-cache'')
          \<and> isdir (the_fs w') (p @ ''/dalvik-cache/arm'')
          \<and> isdir (the_fs w') (p @ ''/dalvik-cache/arm64'')
          \<and> isdir (the_fs w') (p @ ''/dalvik-cache/x86'')
          \<and> isdir (the_fs w') (p @ ''/dalvik-cache/x86_64''))"
proof -
  have 1: "dict_get (environ example_world_unset) ''ANDROID_HOST_OUT'' = None"
    by code_simp
  have 2: "first_free (the_fs example_world_unset) ''/tmp/'' ''bisection_search_''
         (candidates example_world_unset) = Some (''/tmp/bisection_search_abc'', [''k7''])"
    by code_simp
  have 3: "\<forall>q. map_of (the_fs example_world_unset) (''/tmp/bisection_search_abc'' @ ''/'' @ q) = None"
    by (simp add: example_world_unset_def the_fs_def)
  from init_without_ANDROID_HOST_OUT [OF 1, of False] 2 3
  have "\<exists>w' p. HostTestEnv_init False example_world_unset =
                 (Inl (FatalError ''ANDROID_HOST_OUT environmental variable not set.''), w')
          \<and> map_of (the_fs example_world_unset) p = None \<and> isdir (the_fs w') p
          \<and> isdir (the_fs w') (p @ ''/dalvik-cache'')
          \<and> isdir (the_fs w') (p @ ''/dalvik-cache/arm'')
          \<and> isdir (the_fs w') (p @ ''/dalvik-cache/arm64'')
          \<and> isdir (the_fs w') (p @ ''/dalvik-cache/x86'')
          \<and> isdir (the_fs w') (p @ ''/dalvik-cache/x86_64'')"
    by (simp add: DexArchCachePaths_def DALVIK_CACHE_ARCHS_def)
  with 1 2 3 show ?thesis by (intro conjI)
qed

section \<open>Emptying the cache before a command\<close>

lemma child_name_Some:
  "child_name d q = Some n \<longleftrightarrow> q = d @ ''/'' @ n \<and> n \<noteq> [] \<and> CHR ''/'' \<notin> set n"
proof -
  have "take (Suc (length d)) q = d @ ''/'' \<Longrightarrow> q = d @ CHR ''/'' # drop (Suc (length d)) q"
    by (metis append.assoc append_Cons append_Nil append_take_drop_id)
  then show ?thesis
    by (auto simp: child_name_def Let_def)
qed

lemma isfile_delete: "isfile (AList.delete p f) q = (q \<noteq> p \<and> isfile f q)"
  by (simp add: isfile_def delete_conv')

lemma isdir_delete: "isdir (AList.delete p f) q = (q \<noteq> p \<and> isdir f q)"
  by (simp add: isdir_def delete_conv')

lemma isfile_map_of: "isfile f q = (\<exists>c. map_of f q = Some (File c))"
  by (auto simp: isfile_def split: option.splits node.splits)

lemma isdir_map_of: "isdir f q = (map_of f q = Some Dir)"
  by (auto simp: isdir_def split: option.splits node.splits)

lemma isfile_not_isdir: "isfile f q \<Longrightarrow> \<not> isdir f q"
  by (auto simp: isfile_def isdir_def split: option.splits node.splits)

lemma os_unlink_file:
  "isfile (the_fs w) p \<Longrightarrow> os_unlink p w = (Inr (), set_fs (AList.delete p (the_fs w)) w)"
  by (auto simp: os_unlink_def isfile_def split: option.splits node.splits)

lemma set_fs_set_fs [simp]: "set_fs f (set_fs g w) = set_fs f w"
  by (simp add: set_fs_def)

lemma set_fs_the_fs [simp]: "set_fs (the_fs w) w = w"
  by (simp add: set_fs_def the_fs_def)

text \<open>The inner loop never raises; it removes the listed names that are regular files.\<close>

lemma unlink_files_result:
  "\<exists>f'. unlink_files d ns w = (Inr (), set_fs f' w)
      \<and> (\<forall>q. map_of f' q =
             (if isfile (the_fs w) q \<and> q \<in> (\<lambda>n. d @ ''/'' @ n) ` set ns then None
              else map_of (the_fs w) q))"
proof (induction ns arbitrary: w)
  case Nil
  show ?case
    by (rule exI [of _ "the_fs w"]) (simp add: ok_def)
next
  case (Cons n ns)
  let ?fp = "d @ ''/'' @ n"
  show ?case
  proof (cases "isfile (the_fs w) ?fp")
    case True
    let ?w1 = "set_fs (AList.delete ?fp (the_fs w)) w"
    from Cons.IH [of ?w1] obtain f' where
      1: "unlink_files d ns ?w1 = (Inr (), set_fs f' ?w1)"
      and 2: "\<And>q. map_of f' q =
             (if isfile (the_fs ?w1) q \<and> q \<in> (\<lambda>n. d @ ''/'' @ n) ` set ns then None
              else map_of (the_fs ?w1) q)"
      by blast
    from True 1 have "unlink_files d (n # ns) w = (Inr (), set_fs f' w)"
      by (simp add: os_unlink_file then_do_def Let_def)
    moreover have "\<forall>q. map_of f' q =
             (if isfile (the_fs w) q \<and> q \<in> (\<lambda>n. d @ ''/'' @ n) ` set (n # ns) then None
              else map_of (the_fs w) q)"
      using True by (auto simp: 2 isfile_delete delete_conv')
    ultimately show ?thesis by blast
  next
    case False
    from Cons.IH [of w] obtain f' where
      1: "unlink_files d ns w = (Inr (), set_fs f' w)"
      and 2: "\<And>q. map_of f' q =
             (if isfile (the_fs w) q \<and> q \<in> (\<lambda>n. d @ ''/'' @ n) ` set ns then None
              else map_of (the_fs w) q)"
      by blast
    from False 1 have "unlink_files d (n # ns) w = (Inr (), set_fs f' w)"
      by (simp add: Let_def)
    moreover have "\<forall>q. map_of f' q =
             (if isfile (the_fs w) q \<and> q \<in> (\<lambda>n. d @ ''/'' @ n) ` set (n # ns) then None
              else map_of (the_fs w) q)"
      using False by (auto simp: 2)
    ultimately show ?thesis by blast
  qed
qed

lemma os_listdir_dir:
  "isdir (the_fs w) d \<Longrightarrow>
   os_listdir d w = (Inr (List.map_filter (child_name d) (map fst (the_fs w))), w)"
  by (auto simp: os_listdir_def isdir_def split: option.splits node.splits)

lemma set_map_filter:
  "set (List.map_filter g xs) = {y. \<exists>x \<in> set xs. g x = Some y}"
  by (induction xs) (auto simp: map_filter_simps split: option.splits)

lemma listed_names:
  "n \<in> set (List.map_filter (child_name d) (map fst f)) \<longleftrightarrow>
     n \<noteq> [] \<and> CHR ''/'' \<notin> set n \<and> map_of f (d @ ''/'' @ n) \<noteq> None"
proof -
  have "map_of f (d @ ''/'' @ n) \<noteq> None \<longleftrightarrow> d @ ''/'' @ n \<in> fst ` set f"
    by (simp add: map_of_eq_None_iff)
  then show ?thesis
    by (auto simp: set_map_filter child_name_Some)
qed


lemma empty_each_result:
  "\<forall>d \<in> set ps. isdir (the_fs w) d \<Longrightarrow>
   \<exists>f'. empty_each ps w = (Inr (), set_fs f' w)
      \<and> (\<forall>q. map_of f' q =
             (if isfile (the_fs w) q
                 \<and> (\<exists>d \<in> set ps. \<exists>n. n \<noteq> [] \<and> CHR ''/'' \<notin> set n \<and> q = d @ ''/'' @ n)
              then None else map_of (the_fs w) q))"
proof (induction ps arbitrary: w)
  case Nil
  show ?case
    by (rule exI [of _ "the_fs w"]) (simp add: ok_def)
next
  case (Cons d ps)
  let ?names = "List.map_filter (child_name d) (map fst (the_fs w))"
  from Cons.prems have l: "os_listdir d w = (Inr ?names, w)"
    by (simp add: os_listdir_dir)
  from unlink_files_result [of d ?names w] obtain f1 where
    u: "unlink_files d ?names w = (Inr (), set_fs f1 w)"
    and f1: "\<And>q. map_of f1 q =
             (if isfile (the_fs w) q \<and> q \<in> (\<lambda>n. d @ ''/'' @ n) ` set ?names then None
              else map_of (the_fs w) q)"
    by blast
  have in_names: "\<And>q. isfile (the_fs w) q \<and> q \<in> (\<lambda>n. d @ ''/'' @ n) ` set ?names \<longleftrightarrow>
          isfile (the_fs w) q \<and> (\<exists>n. n \<noteq> [] \<and> CHR ''/'' \<notin> set n \<and> q = d @ ''/'' @ n)"
    by (auto simp: listed_names image_iff isfile_def split: option.splits)
  have f1': "\<And>q. map_of f1 q =
             (if isfile (the_fs w) q \<and> (\<exists>n. n \<noteq> [] \<and> CHR ''/'' \<notin> set n \<and> q = d @ ''/'' @ n)
              then None else map_of (the_fs w) q)"
    unfolding f1 in_names ..
  let ?w1 = "set_fs f1 w"
  have "\<forall>d' \<in> set ps. isdir (the_fs ?w1) d'"
  proof
    fix d' assume "d' \<in> set ps"
    with Cons.prems have "isdir (the_fs w) d'" by simp
    then show "isdir (the_fs ?w1) d'"
      by (auto simp: isdir_def f1' dest: isfile_not_isdir)
  qed
  from Cons.IH [OF this] obtain f' where
    e: "empty_each ps ?w1 = (Inr (), set_fs f' ?w1)"
    and f': "\<And>q. map_of f' q =
             (if isfile (the_fs ?w1) q
                 \<and> (\<exists>d \<in> set ps. \<exists>n. n \<noteq> [] \<and> CHR ''/'' \<notin> set n \<and> q = d @ ''/'' @ n)
              then None else map_of (the_fs ?w1) q)"
    by blast
  from l u e have "empty_each (d # ps) w = (Inr (), set_fs f' w)"
    by (simp add: then_do_def)
  moreover have "\<forall>q. map_of f' q =
             (if isfile (the_fs w) q
                 \<and> (\<exists>d \<in> set (d # ps). \<exists>n. n \<noteq> [] \<and> CHR ''/'' \<notin> set n \<and> q = d @ ''/'' @ n)
              then None else map_of (the_fs w) q)"
  proof
    fix q
    have "isfile (the_fs ?w1) q \<longleftrightarrow>
            isfile (the_fs w) q \<and> \<not> (\<exists>n. n \<noteq> [] \<and> CHR ''/'' \<notin> set n \<and> q = d @ ''/'' @ n)"
      by (auto simp: isfile_def f1')
    then show "map_of f' q =
             (if isfile (the_fs w) q
                 \<and> (\<exists>d \<in> set (d # ps). \<exists>n. n \<noteq> [] \<and> CHR ''/'' \<notin> set n \<and> q = d @ ''/'' @ n)
              then None else map_of (the_fs w) q)"
      by (auto simp: f' f1')
  qed
  ultimately show ?case by blast
qed

text \<open>
  C4. Let the four architecture directories exist, as the constructor leaves them. Then
  \<^verbatim>\<open>RunCommand\<close> first empties the cache, and the child is started on the machine that
  the emptying leaves: there, for each of \<^verbatim>\<open>arm\<close>, \<^verbatim>\<open>arm64\<close>, \<^verbatim>\<open>x86\<close> and
  \<^verbatim>\<open>x86_64\<close>, no name directly inside the cache directory is a regular file; every
  directory is still a directory; and every path other than a regular file directly
  inside one of the four directories has the node it had, so what lies in
  subdirectories stays.
\<close>

theorem host_cache_emptied_before_command:
  assumes "\<forall>a \<in> set (DexArchCachePaths (host_env_path self)). isdir (the_fs w) a"
  shows "\<exists>w1. HostEmptyDexCache self w = (Inr (), w1) \<and> w1 = set_fs (the_fs w1) w
         \<and> HostRunCommand popen self cmd env_updates w =
             (case RunCommandForOutputAndLog popen cmd
                     (dict_update (host_shell_env self) (case env_updates of None \<Rightarrow> [] | Some d \<Rightarrow> d))
                     (host_logfile self) DEFAULT_TIMEOUT (mach w1) of
                (res, logfile', m') \<Rightarrow> (res, self\<lparr>host_logfile := logfile'\<rparr>, w1\<lparr>mach := m'\<rparr>))
         \<and> DexArchCachePaths (host_env_path self) =
             map (\<lambda>arch. host_env_path self @ ''/dalvik-cache/'' @ arch)
               [''arm'', ''arm64'', ''x86'', ''x86_64'']
         \<and> (\<forall>a \<in> set (DexArchCachePaths (host_env_path self)).
               \<forall>n. n \<noteq> [] \<and> CHR ''/'' \<notin> set n \<longrightarrow> \<not> isfile (the_fs w1) (a @ ''/'' @ n))
         \<and> (\<forall>q. isdir (the_fs w) q \<longrightarrow> isdir (the_fs w1) q)
         \<and> (\<forall>q. \<not> (isfile (the_fs w) q
                     \<and> (\<exists>a \<in> set (DexArchCachePaths (host_env_path self)).
                           \<exists>n. n \<noteq> [] \<and> CHR ''/'' \<notin> set n \<and> q = a @ ''/'' @ n))
                 \<longrightarrow> map_of (the_fs w1) q = map_of (the_fs w) q)"
proof -
  let ?ps = "DexArchCachePaths (host_env_path self)"
  from empty_each_result [OF assms] obtain f' where
    e: "empty_each ?ps w = (Inr (), set_fs f' w)"
    and f': "\<And>q. map_of f' q =
             (if isfile (the_fs w) q
                 \<and> (\<exists>d \<in> set ?ps. \<exists>n. n \<noteq> [] \<and> CHR ''/'' \<notin> set n \<and> q = d @ ''/'' @ n)
              then None else map_of (the_fs w) q)"
    by blast
  let ?w1 = "set_fs f' w"
  have 1: "HostEmptyDexCache self w = (Inr (), ?w1)"
    using e by (simp add: HostEmptyDexCache_def)
  have 2: "?w1 = set_fs (the_fs ?w1) w"
    by simp
  note 3 = HostRunCommand_after_cache [OF 1, of popen cmd env_updates]
  have 4: "?ps = map (\<lambda>arch. host_env_path self @ ''/dalvik-cache/'' @ arch)
               [''arm'', ''arm64'', ''x86'', ''x86_64'']"
    by (simp add: DexArchCachePaths_def DALVIK_CACHE_ARCHS_def)
  have 5: "\<forall>a \<in> set ?ps. \<forall>n. n \<noteq> [] \<and> CHR ''/'' \<notin> set n \<longrightarrow> \<not> isfile (the_fs ?w1) (a @ ''/'' @ n)"
  proof (intro ballI allI impI)
    fix a n
    assume a: "a \<in> set ?ps" and n: "n \<noteq> [] \<and> CHR ''/'' \<notin> set n"
    show "\<not> isfile (the_fs ?w1) (a @ ''/'' @ n)"
    proof (cases "isfile (the_fs w) (a @ ''/'' @ n)")
      case True
      with a n have "map_of f' (a @ ''/'' @ n) = None"
        unfolding f' by auto
      then show ?thesis by (simp add: isfile_def)
    next
      case False
      then show ?thesis
        by (auto simp: isfile_map_of f')
    qed
  qed
  have 6: "\<forall>q. isdir (the_fs w) q \<longrightarrow> isdir (the_fs ?w1) q"
    by (auto simp: isdir_map_of isfile_map_of f')
  have 7: "\<forall>q. \<not> (isfile (the_fs w) q
                     \<and> (\<exists>a \<in> set ?ps. \<exists>n. n \<noteq> [] \<and> CHR ''/'' \<notin> set n \<and> q = a @ ''/'' @ n))
                 \<longrightarrow> map_of (the_fs ?w1) q = map_of (the_fs w) q"
    by (auto simp: f')
  from 1 2 3 4 5 6 7 show ?thesis
    by (intro exI [of _ ?w1] conjI)
qed

theorem host_cache_emptied_before_command_witness:
  "isdir (the_fs example_world_cached) ''/tmp/bisection_search_abc/dalvik-cache/arm''
   \<and> isdir (the_fs example_world_cached) ''/tmp/bisection_search_abc/dalvik-cache/arm64''
   \<and> isdir (the_fs example_world_cached) ''/tmp/bisection_search_abc/dalvik-cache/x86''
   \<and> isdir (the_fs example_world_cached) ''/tmp/bisection_search_abc/dalvik-cache/x86_64''
   \<and> isfile (the_fs example_world_cached) ''/tmp/bisection_search_abc/dalvik-cache/arm/boot.oat''
   \<and> isfile (the_fs example_world_cached) ''/tmp/bisection_search_abc/dalvik-cache/x86_64/a.dex''
   \<and> (\<exists>w1. HostEmptyDexCache example_env example_world_cached = (Inr (), w1)
          \<and> HostRunCommand quiet_child example_env [''true''] None example_world_cached =
              (case RunCommandForOutputAndLog quiet_child [''true'']
                      (dict_update (host_shell_env example_env) [])
                      (host_logfile example_env) DEFAULT_TIMEOUT (mach w1) of
                 (res, logfile', m') \<Rightarrow>
                   (res, example_env\<lparr>host_logfile := logfile'\<rparr>, w1\<lparr>mach := m'\<rparr>))
          \<and> \<not> isfile (the_fs w1) ''/tmp/bisection_search_abc/dalvik-cache/arm/boot.oat''
          \<and> \<not> isfile (the_fs w1) ''/tmp/bisection_search_abc/dalvik-cache/x86_64/a.dex''
          \<and> isdir (the_fs w1) ''/tmp/bisection_search_abc/dalvik-cache/arm/sub''
          \<and> map_of (the_fs w1) ''/tmp/bisection_search_abc/dalvik-cache/arm/sub/keep.oat'' =
              Some (File ''y''))"
proof -
  let ?ps = "DexArchCachePaths (host_env_path example_env)"
  have ps: "?ps = [''/tmp/bisection_search_abc/dalvik-cache/arm'',
                   ''/tmp/bisection_search_abc/dalvik-cache/arm64'',
                   ''/tmp/bisection_search_abc/dalvik-cache/x86'',
                   ''/tmp/bisection_search_abc/dalvik-cache/x86_64'']"
    by (simp add: DexArchCachePaths_def DALVIK_CACHE_ARCHS_def example_env_def)
  have d: "isdir (the_fs example_world_cached) ''/tmp/bisection_search_abc/dalvik-cache/arm''"
    "isdir (the_fs example_world_cached) ''/tmp/bisection_search_abc/dalvik-cache/arm64''"
    "isdir (the_fs example_world_cached) ''/tmp/bisection_search_abc/dalvik-cache/x86''"
    "isdir (the_fs example_world_cached) ''/tmp/bisection_search_abc/dalvik-cache/x86_64''"
    by code_simp+
  have f: "isfile (the_fs example_world_cached) ''/tmp/bisection_search_abc/dalvik-cache/arm/boot.oat''"
    "isfile (the_fs example_world_cached) ''/tmp/bisection_search_abc/dalvik-cache/x86_64/a.dex''"
    by code_simp+
  have s: "isdir (the_fs example_world_cached) ''/tmp/bisection_search_abc/dalvik-cache/arm/sub''"
    and k: "map_of (the_fs example_world_cached)
              ''/tmp/bisection_search_abc/dalvik-cache/arm/sub/keep.oat'' = Some (File ''y'')"
    by code_simp+
  from d have h: "\<forall>a \<in> set ?ps. isdir (the_fs example_world_cached) a"
    by (simp add: ps)
  from host_cache_emptied_before_command [OF h, of quiet_child "[''true'']" None]
  obtain w1 where
    1: "HostEmptyDexCache example_env example_world_cached = (Inr (), w1)"
    and 2: "HostRunCommand quiet_child example_env [''true''] None example_world_cached =
              (case RunCommandForOutputAndLog quiet_child [''true'']
                      (dict_update (host_shell_env example_env) [])
                      (host_logfile example_env) DEFAULT_TIMEOUT (mach w1) of
                 (res, logfile', m') \<Rightarrow>
                   (res, example_env\<lparr>host_logfile := logfile'\<rparr>, w1\<lparr>mach := m'\<rparr>))"
    and 3: "\<And>a n. a \<in> set ?ps \<Longrightarrow> n \<noteq> [] \<and> CHR ''/'' \<notin> set n \<Longrightarrow>
               \<not> isfile (the_fs w1) (a @ ''/'' @ n)"
    and 4: "\<And>q. isdir (the_fs example_world_cached) q \<Longrightarrow> isdir (the_fs w1) q"
    and 5: "\<And>q. \<not> (isfile (the_fs example_world_cached) q
                     \<and> (\<exists>a \<in> set ?ps. \<exists>n. n \<noteq> [] \<and> CHR ''/'' \<notin> set n \<and> q = a @ ''/'' @ n))
                 \<Longrightarrow> map_of (the_fs w1) q = map_of (the_fs example_world_cached) q"
    by auto
  from 3 [of "''/tmp/bisection_search_abc/dalvik-cache/arm''" "''boot.oat''"]
  have a: "\<not> isfile (the_fs w1) ''/tmp/bisection_search_abc/dalvik-cache/arm/boot.oat''"
    by (simp add: ps)
  from 3 [of "''/tmp/bisection_search_abc/dalvik-cache/x86_64''" "''a.dex''"]
  have b: "\<not> isfile (the_fs w1) ''/tmp/bisection_search_abc/dalvik-cache/x86_64/a.dex''"
    by (simp add: ps)
  note c = 4 [OF s]
  have "map_of (the_fs w1) ''/tmp/bisection_search_abc/dalvik-cache/arm/sub/keep.oat'' =
        map_of (the_fs example_world_cached) ''/tmp/bisection_search_abc/dalvik-cache/arm/sub/keep.oat''"
    by (rule 5) (auto simp: ps)
  with k have e: "map_of (the_fs w1) ''/tmp/bisection_search_abc/dalvik-cache/arm/sub/keep.oat'' =
        Some (File ''y'')"
    by simp
  show ?thesis
    apply (intro conjI exI [of _ w1])
    apply (rule d f 1 2 a b c e)+
    done
qed

section \<open>Running a command on the device\<close>

lemma dict_set_new:
  "dict_get d k = None \<Longrightarrow> dict_set d k v = d @ [(k, v)]"
  unfolding dict_get_def dict_set_def
  by (induction d) (auto split: if_splits)

lemma check_call_frame:
  assumes "check_call run args (self, w) = (r, (self', w'))"
  shows "heap w' = heap w \<and> dev_device_env_path self' = dev_device_env_path self
       \<and> dev_shell_env self' = dev_shell_env self"
  using assms by (auto simp: check_call_def Let_def split: prod.splits sum.splits if_splits)

lemma check_call_split_frame:
  assumes "check_call_split run cmd (self, w) = (r, (self', w'))"
  shows "heap w' = heap w \<and> dev_device_env_path self' = dev_device_env_path self
       \<and> dev_shell_env self' = dev_shell_env self"
  using assms by (auto simp: check_call_split_def split: sum.splits dest: check_call_frame)

lemma device_empty_each_frame:
  "device_empty_each run ps (self, w) = (r, (self', w')) \<Longrightarrow>
   heap w' = heap w \<and> dev_device_env_path self' = dev_device_env_path self
       \<and> dev_shell_env self' = dev_shell_env self"
proof (induction ps arbitrary: self w)
  case Nil
  then show ?case by (simp add: ok_def)
next
  case (Cons p ps)
  let ?c = "check_call_split run
          (''adb shell if [ -d '' @ dq @ p @ dq @ '' ]; then rm -f '' @ dq @ p @ dq @ ''/*; fi'')"
  obtain x self1 w1 where c: "?c (self, w) = (x, (self1, w1))"
    by (metis prod.exhaust)
  note f = check_call_split_frame [OF c]
  show ?case
  proof (cases x)
    case (Inl e)
    with c Cons.prems f show ?thesis by (simp add: then_do_def)
  next
    case (Inr u)
    with c Cons.prems have "device_empty_each run ps (self1, w1) = (r, (self', w'))"
      by (simp add: then_do_def)
    from Cons.IH [OF this] f show ?thesis by simp
  qed
qed

lemma DeviceEmptyDexCache_frame:
  "DeviceEmptyDexCache run (self, w) = (r, (self', w')) \<Longrightarrow>
   heap w' = heap w \<and> dev_device_env_path self' = dev_device_env_path self
       \<and> dev_shell_env self' = dev_shell_env self"
  by (simp add: DeviceEmptyDexCache_def device_empty_each_frame)

lemma default_updates_valid:
  assumes "default_updates env_updates w = (r, wa)"
    and "case env_updates of None \<Rightarrow> True | Some r0 \<Rightarrow> r0 < length (heap w)"
  shows "r < length (heap wa)"
    and "heap wa ! r = (case env_updates of None \<Rightarrow> [] | Some r0 \<Rightarrow> heap w ! r0)"
  using assms
  by (auto simp: default_updates_def nth_append split: option.splits if_splits)

text \<open>The call once the cache has been emptied: the dict it reads, the text it splits.\<close>

lemma DeviceRunCommand_after_cache:
  assumes "default_updates env_updates w = (r, wa)"
    and "DeviceEmptyDexCache run (self, wa) = (Inr (), (self1, wb))"
    and "r < length (heap wa)"
  shows "\<exists>wc. DeviceRunCommand popen run cmd env_updates (self, w) =
           (case shlex_split
                   (''adb shell '' @ dq @ ''logcat -c && ''
                      @ join '' '' (map (\<lambda>(var, val). var @ ''='' @ val) (heap wc ! r))
                      @ '' '' @ CommandListToCommandString cmd
                      @ '' ; logcat -d -s dex2oat:* dex2oatd:*''
                      @ ''| grep -v '' @ dq @ ''^---------'' @ dq @ '' 1>&2'' @ dq) of
              Inl e \<Rightarrow> (Inl e, (self1, wc))
            | Inr args \<Rightarrow>
                (case RunCommandForOutputAndLog popen args (dev_shell_env self) (dev_logfile self1)
                        DEFAULT_TIMEOUT (mach wb) of
                   (res, logfile', m') \<Rightarrow> (res, (self1\<lparr>dev_logfile := logfile'\<rparr>, wc\<lparr>mach := m'\<rparr>))))
         \<and> heap wc ! r =
             (case dict_get (heap wa ! r) ''ANDROID_DATA'' of
                None \<Rightarrow> heap wa ! r @ [(''ANDROID_DATA'', dev_device_env_path self)]
              | Some v \<Rightarrow> heap wa ! r)
         \<and> (\<forall>i. i \<noteq> r \<longrightarrow> heap wc ! i = heap wa ! i)"
proof -
  note f = DeviceEmptyDexCache_frame [OF assms(2)]
  let ?d = "heap wa ! r"
  show ?thesis
  proof (cases "dict_get ?d ''ANDROID_DATA''")
    case None
    let ?wc = "wb\<lparr>heap := (heap wb)[r := dict_set ?d ''ANDROID_DATA'' (dev_device_env_path self)]\<rparr>"
    show ?thesis
      apply (rule exI [of _ ?wc])
      using assms None f
      apply (simp add: DeviceRunCommand_def then_do_def Let_def dict_set_new split: sum.splits prod.splits)
      done
  next
    case (Some v)
    show ?thesis
      apply (rule exI [of _ wb])
      using assms Some f
      apply (simp add: DeviceRunCommand_def then_do_def Let_def split: sum.splits prod.splits)
      done
  qed
qed

text \<open>
  C9. Let the argument be \<^verbatim>\<open>None\<close> or a reference to a dict, and let the cache
  emptying succeed so that the call gets to build its command. The text it hands to
  \<^verbatim>\<open>shlex.split\<close> is \<^verbatim>\<open>adb shell "logcat -c && \<close> followed by the assignments
  \<^verbatim>\<open>var=val\<close> joined by spaces, the quoted command and the \<^verbatim>\<open>logcat\<close> tail. The
  assignments are those of the caller's dict in its order, unchanged, when it binds
  \<^verbatim>\<open>ANDROID_DATA\<close>; otherwise they are those of the caller's dict followed by
  \<^verbatim>\<open>ANDROID_DATA=\<close> and the scratch directory on the device.
\<close>

theorem device_data_root_injected:
  assumes "case env_updates of None \<Rightarrow> True | Some r0 \<Rightarrow> r0 < length (heap w)"
    and "default_updates env_updates w = (r, wa)"
    and "DeviceEmptyDexCache run (self, wa) = (Inr (), (self1, wb))"
  shows "\<exists>assignments st'.
           DeviceRunCommand popen run cmd env_updates (self, w) =
             (case shlex_split
                     (''adb shell '' @ dq @ ''logcat -c && '' @ join '' '' assignments
                        @ '' '' @ CommandListToCommandString cmd
                        @ '' ; logcat -d -s dex2oat:* dex2oatd:*''
                        @ ''| grep -v '' @ dq @ ''^---------'' @ dq @ '' 1>&2'' @ dq) of
                Inl e \<Rightarrow> (Inl e, st')
              | Inr args \<Rightarrow>
                  (case RunCommandForOutputAndLog popen args (dev_shell_env self)
                          (dev_logfile (fst st')) DEFAULT_TIMEOUT (mach wb) of
                     (res, logfile', m') \<Rightarrow>
                       (res, ((fst st')\<lparr>dev_logfile := logfile'\<rparr>, (snd st')\<lparr>mach := m'\<rparr>))))
         \<and> assignments =
             map (\<lambda>(var, val). var @ ''='' @ val)
               (let d = (case env_updates of None \<Rightarrow> [] | Some r0 \<Rightarrow> heap w ! r0)
                in case dict_get d ''ANDROID_DATA'' of
                     None \<Rightarrow> d @ [(''ANDROID_DATA'', dev_device_env_path self)]
                   | Some v \<Rightarrow> d)"
proof -
  note v = default_updates_valid [OF assms(2) assms(1)]
  from DeviceRunCommand_after_cache [OF assms(2) assms(3) v(1), of popen cmd]
  obtain wc where
    1: "DeviceRunCommand popen run cmd env_updates (self, w) =
           (case shlex_split
                   (''adb shell '' @ dq @ ''logcat -c && ''
                      @ join '' '' (map (\<lambda>(var, val). var @ ''='' @ val) (heap wc ! r))
                      @ '' '' @ CommandListToCommandString cmd
                      @ '' ; logcat -d -s dex2oat:* dex2oatd:*''
                      @ ''| grep -v '' @ dq @ ''^---------'' @ dq @ '' 1>&2'' @ dq) of
              Inl e \<Rightarrow> (Inl e, (self1, wc))
            | Inr args \<Rightarrow>
                (case RunCommandForOutputAndLog popen args (dev_shell_env self) (dev_logfile self1)
                        DEFAULT_TIMEOUT (mach wb) of
                   (res, logfile', m') \<Rightarrow> (res, (self1\<lparr>dev_logfile := logfile'\<rparr>, wc\<lparr>mach := m'\<rparr>))))"
    and 2: "heap wc ! r =
             (case dict_get (heap wa ! r) ''ANDROID_DATA'' of
                None \<Rightarrow> heap wa ! r @ [(''ANDROID_DATA'', dev_device_env_path self)]
              | Some v \<Rightarrow> heap wa ! r)"
    by blast
  have 3: "heap wc ! r =
             (let d = (case env_updates of None \<Rightarrow> [] | Some r0 \<Rightarrow> heap w ! r0)
              in case dict_get d ''ANDROID_DATA'' of
                   None \<Rightarrow> d @ [(''ANDROID_DATA'', dev_device_env_path self)]
                 | Some v \<Rightarrow> d)"
    unfolding 2 v(2) Let_def ..
  show ?thesis
    apply (rule exI [of _ "map (\<lambda>(var, val). var @ ''='' @ val) (heap wc ! r)"])
    apply (rule exI [of _ "(self1, wc)"])
    apply (rule conjI)
     apply (simp only: fst_conv snd_conv)
     apply (rule 1)
    apply (simp only: 3)
    done
qed

theorem device_data_root_injected_witness:
  "fst (DeviceTestEnv_init quiet_adb example_world) = Inr example_device
   \<and> (0::nat) < length (heap example_device_world)
   \<and> default_updates (Some 0) example_device_world = (0, example_device_world)
   \<and> DeviceEmptyDexCache quiet_adb (example_device, example_device_world) =
       (Inr (), (example_device, example_device_world))
   \<and> heap example_device_world ! 0 = [(''LANG'', ''C'')]
   \<and> (\<exists>st'. DeviceRunCommand quiet_child quiet_adb [''dalvikvm''] (Some 0)
                (example_device, example_device_world) =
              (case shlex_split
                      (''adb shell '' @ dq @ ''logcat -c && ''
                         @ join '' '' [''LANG=C'', ''ANDROID_DATA=/data/local/tmp/bisection_search_abc'']
                         @ '' '' @ CommandListToCommandString [''dalvikvm'']
                         @ '' ; logcat -d -s dex2oat:* dex2oatd:*''
                         @ ''| grep -v '' @ dq @ ''^---------'' @ dq @ '' 1>&2'' @ dq) of
                 Inl e \<Rightarrow> (Inl e, st')
               | Inr args \<Rightarrow>
                   (case RunCommandForOutputAndLog quiet_child args (dev_shell_env example_device)
                           (dev_logfile (fst st')) DEFAULT_TIMEOUT (mach example_device_world) of
                      (res, logfile', m') \<Rightarrow>
                        (res, ((fst st')\<lparr>dev_logfile := logfile'\<rparr>, (snd st')\<lparr>mach := m'\<rparr>)))))
   \<and> shlex_split
         (''adb shell '' @ dq @ ''logcat -c && ''
            @ join '' '' [''LANG=C'', ''ANDROID_DATA=/data/local/tmp/bisection_search_abc'']
            @ '' '' @ CommandListToCommandString [''dalvikvm'']
            @ '' ; logcat -d -s dex2oat:* dex2oatd:*''
            @ ''| grep -v '' @ dq @ ''^---------'' @ dq @ '' 1>&2'' @ dq) =
       Inr [''adb'', ''shell'',
            ''logcat -c && LANG=C ANDROID_DATA=/data/local/tmp/bisection_search_abc dalvikvm ; logcat -d -s dex2oat:* dex2oatd:*| grep -v ^--------- 1>&2'']"
proof -
  have 0: "fst (DeviceTestEnv_init quiet_adb example_world) = Inr example_device"
    by code_simp
  have 1: "(0::nat) < length (heap example_device_world)"
    by code_simp
  then have h1: "case Some (0::nat) of None \<Rightarrow> True | Some r0 \<Rightarrow> r0 < length (heap example_device_world)"
    by simp
  have 2: "default_updates (Some 0) example_device_world = (0, example_device_world)"
    by code_simp
  have 3: "DeviceEmptyDexCache quiet_adb (example_device, example_device_world) =
       (Inr (), (example_device, example_device_world))"
    by code_simp
  have 4: "heap example_device_world ! 0 = [(''LANG'', ''C'')]"
    by code_simp
  have 5: "dev_device_env_path example_device = ''/data/local/tmp/bisection_search_abc''"
    by code_simp
  have 6: "shlex_split
         (''adb shell '' @ dq @ ''logcat -c && ''
            @ join '' '' [''LANG=C'', ''ANDROID_DATA=/data/local/tmp/bisection_search_abc'']
            @ '' '' @ CommandListToCommandString [''dalvikvm'']
            @ '' ; logcat -d -s dex2oat:* dex2oatd:*''
            @ ''| grep -v '' @ dq @ ''^---------'' @ dq @ '' 1>&2'' @ dq) =
       Inr [''adb'', ''shell'',
            ''logcat -c && LANG=C ANDROID_DATA=/data/local/tmp/bisection_search_abc dalvikvm ; logcat -d -s dex2oat:* dex2oatd:*| grep -v ^--------- 1>&2'']"
    by code_simp
  from device_data_root_injected [OF h1 2 3, of quiet_child "[''dalvikvm'']"]
  obtain assignments st' where
    a: "DeviceRunCommand quiet_child quiet_adb [''dalvikvm''] (Some 0)
                (example_device, example_device_world) =
              (case shlex_split
                      (''adb shell '' @ dq @ ''logcat -c && '' @ join '' '' assignments
                         @ '' '' @ CommandListToCommandString [''dalvikvm'']
                         @ '' ; logcat -d -s dex2oat:* dex2oatd:*''
                         @ ''| grep -v '' @ dq @ ''^---------'' @ dq @ '' 1>&2'' @ dq) of
                 Inl e \<Rightarrow> (Inl e, st')
               | Inr args \<Rightarrow>
                   (case RunCommandForOutputAndLog quiet_child args (dev_shell_env example_device)
                           (dev_logfile (fst st')) DEFAULT_TIMEOUT (mach example_device_world) of
                      (res, logfile', m') \<Rightarrow>
                        (res, ((fst st')\<lparr>dev_logfile := logfile'\<rparr>, (snd st')\<lparr>mach := m'\<rparr>))))"
    and b: "assignments =
             map (\<lambda>(var, val). var @ ''='' @ val)
               (let d = (case Some (0::nat) of None \<Rightarrow> [] | Some r0 \<Rightarrow> heap example_device_world ! r0)
                in case dict_get d ''ANDROID_DATA'' of
                     None \<Rightarrow> d @ [(''ANDROID_DATA'', dev_device_env_path example_device)]
                   | Some v \<Rightarrow> d)"
    by blast
  from b have c: "assignments = [''LANG=C'', ''ANDROID_DATA=/data/local/tmp/bisection_search_abc'']"
    by (simp add: 4 5 dict_get_Cons dict_get_Nil)
  show ?thesis
    apply (intro conjI exI [of _ st'])
    apply (rule 0 1 2 3 4 6 a [unfolded c])+
    done
qed

text \<open>When the cache cannot be emptied the method raises at once.\<close>

lemma DeviceRunCommand_cache_raises:
  assumes "default_updates env_updates w = (r, wa)"
    and "DeviceEmptyDexCache run (self, wa) = (Inl e, (self1, wb))"
  shows "DeviceRunCommand popen run cmd env_updates (self, w) = (Inl e, (self1, wb))"
  using assms by (simp add: DeviceRunCommand_def then_do_def)

text \<open>
  C10, as stated, fails when \<^verbatim>\<open>adb\<close> fails: the call raises while it empties the
  cache, before the statement that stores into the dict, and the caller's dict, not
  empty and without \<^verbatim>\<open>ANDROID_DATA\<close>, is afterwards what it was.
\<close>

theorem device_run_command_failing_adb_leaves_dict:
  "heap example_device_world ! 0 = [(''LANG'', ''C'')]
   \<and> fst (DeviceRunCommand quiet_child failing_adb [''dalvikvm''] (Some 0)
            (example_device, example_device_world)) = Inl (CalledProcessError 1)
   \<and> heap (snd (snd (DeviceRunCommand quiet_child failing_adb [''dalvikvm''] (Some 0)
                       (example_device, example_device_world)))) ! 0 = [(''LANG'', ''C'')]"
  by code_simp

text \<open>
  C10, amended. Let the caller pass a reference to a dict that is not empty and has no
  key \<^verbatim>\<open>ANDROID_DATA\<close>. When the cache emptying succeeds, then, whether the rest of
  the call returns or raises, afterwards the caller's dict is the dict it was followed
  by the item that binds \<^verbatim>\<open>ANDROID_DATA\<close> to the scratch directory on the device, and
  the other dicts are as they were. When the cache emptying raises, the call raises
  the same error and every dict is as it was.
\<close>

theorem device_run_command_mutates_caller_dict:
  assumes "r < length (heap w)"
    and "heap w ! r \<noteq> []"
    and "dict_get (heap w ! r) ''ANDROID_DATA'' = None"
  shows "(DeviceEmptyDexCache run (self, w) = (Inr (), (self1, wb)) \<longrightarrow>
            (\<exists>res self' w'.
               DeviceRunCommand popen run cmd (Some r) (self, w) = (res, (self', w'))
             \<and> heap w' ! r = heap w ! r @ [(''ANDROID_DATA'', dev_device_env_path self)]
             \<and> dict_get (heap w' ! r) ''ANDROID_DATA'' = Some (dev_device_env_path self)
             \<and> heap w' ! r \<noteq> heap w ! r
             \<and> (\<forall>i. i \<noteq> r \<longrightarrow> heap w' ! i = heap w ! i)))
       \<and> (DeviceEmptyDexCache run (self, w) = (Inl e, (self1, wb)) \<longrightarrow>
            DeviceRunCommand popen run cmd (Some r) (self, w) = (Inl e, (self1, wb))
            \<and> heap wb = heap w)"
proof -
  from assms(2) have d: "default_updates (Some r) w = (r, w)"
    by (simp add: default_updates_def)
  have ok: "DeviceEmptyDexCache run (self, w) = (Inr (), (self1, wb)) \<longrightarrow>
            (\<exists>res self' w'.
               DeviceRunCommand popen run cmd (Some r) (self, w) = (res, (self', w'))
             \<and> heap w' ! r = heap w ! r @ [(''ANDROID_DATA'', dev_device_env_path self)]
             \<and> dict_get (heap w' ! r) ''ANDROID_DATA'' = Some (dev_device_env_path self)
             \<and> heap w' ! r \<noteq> heap w ! r
             \<and> (\<forall>i. i \<noteq> r \<longrightarrow> heap w' ! i = heap w ! i))"
  proof
    assume c: "DeviceEmptyDexCache run (self, w) = (Inr (), (self1, wb))"
    from DeviceRunCommand_after_cache [OF d c assms(1), of popen cmd] assms(3)
    obtain wc where
      1: "DeviceRunCommand popen run cmd (Some r) (self, w) =
           (case shlex_split
                   (''adb shell '' @ dq @ ''logcat -c && ''
                      @ join '' '' (map (\<lambda>(var, val). var @ ''='' @ val) (heap wc ! r))
                      @ '' '' @ CommandListToCommandString cmd
                      @ '' ; logcat -d -s dex2oat:* dex2oatd:*''
                      @ ''| grep -v '' @ dq @ ''^---------'' @ dq @ '' 1>&2'' @ dq) of
              Inl e \<Rightarrow> (Inl e, (self1, wc))
            | Inr args \<Rightarrow>
                (case RunCommandForOutputAndLog popen args (dev_shell_env self) (dev_logfile self1)
                        DEFAULT_TIMEOUT (mach wb) of
                   (res, logfile', m') \<Rightarrow> (res, (self1\<lparr>dev_logfile := logfile'\<rparr>, wc\<lparr>mach := m'\<rparr>))))"
      and 2: "heap wc ! r = heap w ! r @ [(''ANDROID_DATA'', dev_device_env_path self)]"
      and 3: "\<forall>i. i \<noteq> r \<longrightarrow> heap wc ! i = heap w ! i"
      by auto
    obtain res self' w' where 4: "DeviceRunCommand popen run cmd (Some r) (self, w) = (res, (self', w'))"
      by (metis prod.exhaust)
    with 1 have "heap w' = heap wc"
      by (auto split: sum.splits prod.splits)
    with 2 3 4 assms(3) show "\<exists>res self' w'.
               DeviceRunCommand popen run cmd (Some r) (self, w) = (res, (self', w'))
             \<and> heap w' ! r = heap w ! r @ [(''ANDROID_DATA'', dev_device_env_path self)]
             \<and> dict_get (heap w' ! r) ''ANDROID_DATA'' = Some (dev_device_env_path self)
             \<and> heap w' ! r \<noteq> heap w ! r
             \<and> (\<forall>i. i \<noteq> r \<longrightarrow> heap w' ! i = heap w ! i)"
      by (auto simp: dict_get_def map_add_def)
  qed
  have raises: "DeviceEmptyDexCache run (self, w) = (Inl e, (self1, wb)) \<longrightarrow>
            DeviceRunCommand popen run cmd (Some r) (self, w) = (Inl e, (self1, wb))
            \<and> heap wb = heap w"
    using DeviceRunCommand_cache_raises [OF d, of run self e self1 wb popen cmd]
      DeviceEmptyDexCache_frame [of run self w "Inl e" self1 wb]
    by simp
  from ok raises show ?thesis ..
qed

theorem device_run_command_mutates_caller_dict_witness:
  "(0::nat) < length (heap example_device_world)
   \<and> heap example_device_world ! 0 = [(''LANG'', ''C'')]
   \<and> heap example_device_world ! 0 \<noteq> []
   \<and> dict_get (heap example_device_world ! 0) ''ANDROID_DATA'' = None
   \<and> DeviceEmptyDexCache quiet_adb (example_device, example_device_world) =
       (Inr (), (example_device, example_device_world))
   \<and> (\<exists>res self' w'.
         DeviceRunCommand quiet_child quiet_adb [''dalvikvm''] (Some 0)
           (example_device, example_device_world) = (res, (self', w'))
       \<and> heap w' ! 0 =
           [(''LANG'', ''C''), (''ANDROID_DATA'', ''/data/local/tmp/bisection_search_abc'')]
       \<and> heap w' ! 1 = [(''ANDROID_DATA'', ''/elsewhere''), (''LANG'', ''C'')])
   \<and> fst (DeviceEmptyDexCache failing_adb (example_device, example_device_world)) =
       Inl (CalledProcessError 1)
   \<and> DeviceRunCommand quiet_child failing_adb [''dalvikvm''] (Some 0)
         (example_device, example_device_world) =
       (Inl (CalledProcessError 1),
        snd (DeviceEmptyDexCache failing_adb (example_device, example_device_world)))
   \<and> heap (snd (snd (DeviceEmptyDexCache failing_adb (example_device, example_device_world)))) =
       heap example_device_world"
proof -
  have 1: "(0::nat) < length (heap example_device_world)"
    by code_simp
  have 2: "heap example_device_world ! 0 = [(''LANG'', ''C'')]"
    by code_simp
  then have h2: "heap example_device_world ! 0 \<noteq> []"
    by simp
  have 3: "dict_get (heap example_device_world ! 0) ''ANDROID_DATA'' = None"
    by code_simp
  have 4: "DeviceEmptyDexCache quiet_adb (example_device, example_device_world) =
       (Inr (), (example_device, example_device_world))"
    by code_simp
  have 5: "dev_device_env_path example_device = ''/data/local/tmp/bisection_search_abc''"
    by code_simp
  have 6: "heap example_device_world ! 1 = [(''ANDROID_DATA'', ''/elsewhere''), (''LANG'', ''C'')]"
    by code_simp
  let ?failed = "DeviceEmptyDexCache failing_adb (example_device, example_device_world)"
  have 7: "fst ?failed = Inl (CalledProcessError 1)"
    by code_simp
  then have h7: "?failed = (Inl (CalledProcessError 1), (fst (snd ?failed), snd (snd ?failed)))"
    by (metis prod.collapse)
  from device_run_command_mutates_caller_dict
         [OF 1 h2 3, of quiet_adb example_device example_device example_device_world
            quiet_child "[''dalvikvm'']"] 4
  obtain res self' w' where
    a: "DeviceRunCommand quiet_child quiet_adb [''dalvikvm''] (Some 0)
           (example_device, example_device_world) = (res, (self', w'))"
    and b: "heap w' ! 0 = heap example_device_world ! 0 @ [(''ANDROID_DATA'', dev_device_env_path example_device)]"
    and c: "\<And>i. i \<noteq> 0 \<Longrightarrow> heap w' ! i = heap example_device_world ! i"
    by blast
  from b have b': "heap w' ! 0 =
           [(''LANG'', ''C''), (''ANDROID_DATA'', ''/data/local/tmp/bisection_search_abc'')]"
    by (simp add: 2 5)
  from c [of 1] have "heap w' ! 1 = heap example_device_world ! 1"
    by simp
  then have c': "heap w' ! 1 = [(''ANDROID_DATA'', ''/elsewhere''), (''LANG'', ''C'')]"
    by (simp only: 6)
  from device_run_command_mutates_caller_dict
         [OF 1 h2 3, of failing_adb example_device "fst (snd ?failed)" "snd (snd ?failed)"
            quiet_child "[''dalvikvm'']" "CalledProcessError 1"] h7
  have d: "DeviceRunCommand quiet_child failing_adb [''dalvikvm''] (Some 0)
         (example_device, example_device_world) =
       (Inl (CalledProcessError 1), snd ?failed)"
    and e: "heap (snd (snd ?failed)) = heap example_device_world"
    by simp_all
  show ?thesis
    apply (intro conjI exI [of _ res] exI [of _ self'] exI [of _ w'])
    apply (rule 1 2 h2 3 4 a b' c' 7 d e)+
    done
qed

section \<open>What the runner returns and logs\<close>

text \<open>The runner by the cases of what the child does.\<close>

lemma runner_not_started:
  "popen cmd env timeout m = NotStarted e \<Longrightarrow>
   RunCommandForOutputAndLog popen cmd env logfile timeout m = (Inl e, logfile, m)"
  by (simp add: RunCommandForOutputAndLog_def)

lemma runner_exited:
  "popen cmd env timeout m = Exited (Inr output) rc m' \<Longrightarrow>
   RunCommandForOutputAndLog popen cmd env logfile timeout m =
     (Inr (output, rc),
      logfile @ ''Command:'' @ nl @ CommandListToCommandString cmd @ nl @ output @ nl
        @ ''Return code: '' @ str_int rc @ nl,
      m'\<lparr>children := children m @ [Ended rc]\<rparr>)"
  by (simp add: RunCommandForOutputAndLog_def communicated_def Let_def)

lemma runner_exited_raises:
  "popen cmd env timeout m = Exited (Inl e) rc m' \<Longrightarrow>
   RunCommandForOutputAndLog popen cmd env logfile timeout m =
     (Inl e, logfile, m'\<lparr>children := children m @ [Ended rc]\<rparr>)"
  by (simp add: RunCommandForOutputAndLog_def communicated_def Let_def)

lemma runner_timeout:
  "popen cmd env timeout m = TimeoutExpired (Inr output) m' \<Longrightarrow>
   RunCommandForOutputAndLog popen cmd env logfile timeout m =
     (Inr (output, 1),
      logfile @ ''Command:'' @ nl @ CommandListToCommandString cmd @ nl @ output @ nl
        @ ''Return code: TIMEOUT'' @ nl,
      m'\<lparr>children := children m @ [Ended (- SIGKILL)]\<rparr>)"
  by (simp add: RunCommandForOutputAndLog_def communicated_def kill_def Let_def)

lemma runner_timeout_raises:
  "popen cmd env timeout m = TimeoutExpired (Inl e) m' \<Longrightarrow>
   RunCommandForOutputAndLog popen cmd env logfile timeout m =
     (Inl e, logfile, m'\<lparr>children := children m @ [Ended (- SIGKILL)]\<rparr>)"
  by (simp add: RunCommandForOutputAndLog_def communicated_def kill_def Let_def)


text \<open>
  C3, as stated, fails for an invocation that raises: when the program cannot be started
  \<^verbatim>\<open>Popen\<close> raises on line 85, and when the output of a child that has ended is no
  text \<^verbatim>\<open>communicate\<close> raises on line 89; in both cases the function is left before
  line 94 and the log is what it was.
\<close>

theorem runner_raising_logs_nothing:
  "RunCommandForOutputAndLog missing_child [''dalvikvm''] [] ''old'' 60
       \<lparr>host_fs = [], device_st = (), children = []\<rparr> =
     (Inl FileNotFoundError, ''old'', \<lparr>host_fs = [], device_st = (), children = []\<rparr>)
   \<and> fst (RunCommandForOutputAndLog garbled_child [''dalvikvm''] [] ''old'' 60
            \<lparr>host_fs = [], device_st = (), children = []\<rparr>) = Inl UnicodeDecodeError
   \<and> fst (snd (RunCommandForOutputAndLog garbled_child [''dalvikvm''] [] ''old'' 60
                 \<lparr>host_fs = [], device_st = (), children = []\<rparr>)) = ''old''"
  by code_simp

text \<open>
  C3, amended. An invocation of \<^verbatim>\<open>_RunCommandForOutputAndLog\<close> starts the child on the
  argument vector itself. When the child cannot be started, or the output collected
  from it cannot be decoded, the invocation raises and the log is what it was.
  Otherwise it returns and the log is what it was followed by exactly one block: the
  line \<^verbatim>\<open>Command:\<close>, the line of the arguments, each between double quotes, joined by
  spaces, the output and a newline, and the line \<^verbatim>\<open>Return code: \<close> with the status of
  the child in decimal, zero or not, when it ended within the timeout, and with
  \<^verbatim>\<open>TIMEOUT\<close> when it did not.
\<close>

theorem runner_appends_one_block:
  "(popen cmd env timeout m = NotStarted e \<longrightarrow>
      RunCommandForOutputAndLog popen cmd env logfile timeout m = (Inl e, logfile, m))
   \<and> (popen cmd env timeout m = Exited (Inl e) rc m' \<or>
      popen cmd env timeout m = TimeoutExpired (Inl e) m' \<longrightarrow>
        fst (RunCommandForOutputAndLog popen cmd env logfile timeout m) = Inl e
      \<and> fst (snd (RunCommandForOutputAndLog popen cmd env logfile timeout m)) = logfile)
   \<and> (popen cmd env timeout m = Exited (Inr output) rc m' \<longrightarrow>
        fst (RunCommandForOutputAndLog popen cmd env logfile timeout m) = Inr (output, rc)
      \<and> fst (snd (RunCommandForOutputAndLog popen cmd env logfile timeout m)) =
          logfile @ ''Command:'' @ nl @ join '' '' (map (\<lambda>segment. dq @ segment @ dq) cmd) @ nl
            @ output @ nl @ ''Return code: '' @ str_int rc @ nl)
   \<and> (popen cmd env timeout m = TimeoutExpired (Inr output) m' \<longrightarrow>
        fst (RunCommandForOutputAndLog popen cmd env logfile timeout m) = Inr (output, 1)
      \<and> fst (snd (RunCommandForOutputAndLog popen cmd env logfile timeout m)) =
          logfile @ ''Command:'' @ nl @ join '' '' (map (\<lambda>segment. dq @ segment @ dq) cmd) @ nl
            @ output @ nl @ ''Return code: TIMEOUT'' @ nl)"
proof -
  have 1: "popen cmd env timeout m = NotStarted e \<longrightarrow>
      RunCommandForOutputAndLog popen cmd env logfile timeout m = (Inl e, logfile, m)"
    by (simp add: runner_not_started)
  have 2: "popen cmd env timeout m = Exited (Inl e) rc m' \<or>
      popen cmd env timeout m = TimeoutExpired (Inl e) m' \<longrightarrow>
        fst (RunCommandForOutputAndLog popen cmd env logfile timeout m) = Inl e
      \<and> fst (snd (RunCommandForOutputAndLog popen cmd env logfile timeout m)) = logfile"
    by (auto simp: runner_exited_raises runner_timeout_raises)
  have 3: "popen cmd env timeout m = Exited (Inr output) rc m' \<longrightarrow>
        fst (RunCommandForOutputAndLog popen cmd env logfile timeout m) = Inr (output, rc)
      \<and> fst (snd (RunCommandForOutputAndLog popen cmd env logfile timeout m)) =
          logfile @ ''Command:'' @ nl @ join '' '' (map (\<lambda>segment. dq @ segment @ dq) cmd) @ nl
            @ output @ nl @ ''Return code: '' @ str_int rc @ nl"
    by (simp add: runner_exited CommandListToCommandString_def)
  have 4: "popen cmd env timeout m = TimeoutExpired (Inr output) m' \<longrightarrow>
        fst (RunCommandForOutputAndLog popen cmd env logfile timeout m) = Inr (output, 1)
      \<and> fst (snd (RunCommandForOutputAndLog popen cmd env logfile timeout m)) =
          logfile @ ''Command:'' @ nl @ join '' '' (map (\<lambda>segment. dq @ segment @ dq) cmd) @ nl
            @ output @ nl @ ''Return code: TIMEOUT'' @ nl"
    by (simp add: runner_timeout CommandListToCommandString_def)
  from 1 2 3 4 show ?thesis
    by (rule conjI [OF _ conjI [OF _ conjI]])
qed
theorem runner_appends_one_block_witness:
  "missing_child [''dalvikvm''] [] 60 (mach example_world_made) = NotStarted FileNotFoundError
   \<and> RunCommandForOutputAndLog missing_child [''dalvikvm''] [] ''old'' 60 (mach example_world_made) =
       (Inl FileNotFoundError, ''old'', mach example_world_made)
   \<and> garbled_slow_child [''dalvikvm''] [] 60 (mach example_world_made) =
       TimeoutExpired (Inl UnicodeDecodeError) (mach example_world_made)
   \<and> fst (RunCommandForOutputAndLog garbled_slow_child [''dalvikvm''] [] ''old'' 60
            (mach example_world_made)) = Inl UnicodeDecodeError
   \<and> fst (snd (RunCommandForOutputAndLog garbled_slow_child [''dalvikvm''] [] ''old'' 60
                 (mach example_world_made))) = ''old''
   \<and> failing_child [''dalvikvm'', ''-cp'', ''a b''] [] 60 (mach example_world_made) =
       Exited (Inr ''no such file'') 2 (mach example_world_made)
   \<and> fst (RunCommandForOutputAndLog failing_child [''dalvikvm'', ''-cp'', ''a b''] [] ''old'' 60
            (mach example_world_made)) = Inr (''no such file'', 2)
   \<and> fst (snd (RunCommandForOutputAndLog failing_child [''dalvikvm'', ''-cp'', ''a b''] [] ''old'' 60
                 (mach example_world_made))) =
       ''old'' @ ''Command:'' @ nl
         @ dq @ ''dalvikvm'' @ dq @ '' '' @ dq @ ''-cp'' @ dq @ '' '' @ dq @ ''a b'' @ dq @ nl
         @ ''no such file'' @ nl @ ''Return code: 2'' @ nl
   \<and> slow_child [''dalvikvm'', ''-cp'', ''a b''] [] 60 (mach example_world_made) =
       TimeoutExpired (Inr ''par'') (mach example_world_made)
   \<and> fst (RunCommandForOutputAndLog slow_child [''dalvikvm'', ''-cp'', ''a b''] [] ''old'' 60
            (mach example_world_made)) = Inr (''par'', 1)
   \<and> fst (snd (RunCommandForOutputAndLog slow_child [''dalvikvm'', ''-cp'', ''a b''] [] ''old'' 60
                 (mach example_world_made))) =
       ''old'' @ ''Command:'' @ nl
         @ dq @ ''dalvikvm'' @ dq @ '' '' @ dq @ ''-cp'' @ dq @ '' '' @ dq @ ''a b'' @ dq @ nl
         @ ''par'' @ nl @ ''Return code: TIMEOUT'' @ nl"
proof -
  let ?m = "mach example_world_made"
  let ?cmd = "[''dalvikvm'', ''-cp'', ''a b'']"
  have h1: "missing_child [''dalvikvm''] [] 60 ?m = NotStarted FileNotFoundError"
    by (simp add: missing_child_def)
  have h2: "garbled_slow_child [''dalvikvm''] [] 60 ?m = TimeoutExpired (Inl UnicodeDecodeError) ?m"
    by (simp add: garbled_slow_child_def)
  have h3: "failing_child ?cmd [] 60 ?m = Exited (Inr ''no such file'') 2 ?m"
    by (simp add: failing_child_def)
  have h4: "slow_child ?cmd [] 60 ?m = TimeoutExpired (Inr ''par'') ?m"
    by (simp add: slow_child_def)
  have s: "str_int 2 = ''2''"
    by code_simp
  from runner_appends_one_block [of missing_child "[''dalvikvm'']" "[]" 60 "?m" FileNotFoundError "''old''"] h1
  have c1: "RunCommandForOutputAndLog missing_child [''dalvikvm''] [] ''old'' 60 ?m =
       (Inl FileNotFoundError, ''old'', ?m)"
    by simp
  from runner_appends_one_block
         [of garbled_slow_child "[''dalvikvm'']" "[]" 60 "?m" UnicodeDecodeError "''old''" 0 "?m"] h2
  have c2: "fst (RunCommandForOutputAndLog garbled_slow_child [''dalvikvm''] [] ''old'' 60 ?m) =
          Inl UnicodeDecodeError"
    and c2': "fst (snd (RunCommandForOutputAndLog garbled_slow_child [''dalvikvm''] [] ''old'' 60 ?m)) =
          ''old''"
    by simp_all
  from runner_appends_one_block
         [of failing_child "?cmd" "[]" 60 "?m" FileNotFoundError "''old''" 2 "?m" "''no such file''"] h3
  have c3: "fst (RunCommandForOutputAndLog failing_child ?cmd [] ''old'' 60 ?m) =
          Inr (''no such file'', 2)"
    and c3': "fst (snd (RunCommandForOutputAndLog failing_child ?cmd [] ''old'' 60 ?m)) =
       ''old'' @ ''Command:'' @ nl
         @ dq @ ''dalvikvm'' @ dq @ '' '' @ dq @ ''-cp'' @ dq @ '' '' @ dq @ ''a b'' @ dq @ nl
         @ ''no such file'' @ nl @ ''Return code: 2'' @ nl"
    by (simp_all add: s)
  from runner_appends_one_block
         [of slow_child "?cmd" "[]" 60 "?m" FileNotFoundError "''old''" 2 "?m" "''par''"] h4
  have c4: "fst (RunCommandForOutputAndLog slow_child ?cmd [] ''old'' 60 ?m) = Inr (''par'', 1)"
    and c4': "fst (snd (RunCommandForOutputAndLog slow_child ?cmd [] ''old'' 60 ?m)) =
       ''old'' @ ''Command:'' @ nl
         @ dq @ ''dalvikvm'' @ dq @ '' '' @ dq @ ''-cp'' @ dq @ '' '' @ dq @ ''a b'' @ dq @ nl
         @ ''par'' @ nl @ ''Return code: TIMEOUT'' @ nl"
    by simp_all
  show ?thesis
    apply (intro conjI)
    apply (rule h1 h2 h3 h4 c1 c2 c2' c3 c3' c4 c4')+
    done
qed






section \<open>Writing lines\<close>











section \<open>Creating files\<close>






end
